theory Spec2Isabelle
  imports Complex_Main "HOL-Library.Char_ord" "HOL-Library.List_Lexorder"
begin

section \<open>Values and errors\<close>

text \<open>
  Cells of an input table are finite numbers, written as rationals.  The results of
  numpy/pandas/polars arithmetic are floating-point values, which besides the finite
  numbers contain NaN and the two infinities: division never raises there, it yields
  NaN (0/0) or an infinity (x/0).  Rounding of finite results and the sign of zero are
  not modelled.
\<close>

datatype fval = Num rat | NaN | PInf | NInf

fun fneg :: "fval \<Rightarrow> fval" where
  "fneg (Num a) = Num (- a)"
| "fneg NaN = NaN"
| "fneg PInf = NInf"
| "fneg NInf = PInf"

fun fadd :: "fval \<Rightarrow> fval \<Rightarrow> fval" where
  "fadd (Num a) (Num b) = Num (a + b)"
| "fadd NaN _ = NaN"
| "fadd _ NaN = NaN"
| "fadd PInf NInf = NaN"
| "fadd NInf PInf = NaN"
| "fadd PInf _ = PInf"
| "fadd _ PInf = PInf"
| "fadd NInf _ = NInf"
| "fadd _ NInf = NInf"

definition fsub :: "fval \<Rightarrow> fval \<Rightarrow> fval" where
  "fsub a b = fadd a (fneg b)"

fun fdiv :: "fval \<Rightarrow> fval \<Rightarrow> fval" where
  "fdiv (Num a) (Num b) =
     (if b = 0 then (if a = 0 then NaN else if 0 < a then PInf else NInf)
      else Num (a / b))"
| "fdiv NaN _ = NaN"
| "fdiv _ NaN = NaN"
| "fdiv (Num a) _ = Num 0"
| "fdiv PInf (Num b) = (if b < 0 then NInf else PInf)"
| "fdiv NInf (Num b) = (if b < 0 then PInf else NInf)"
| "fdiv _ _ = NaN"

text \<open>Hyperparameter values and dictionary keys.\<close>

datatype pval = PInt int | PNum rat | PStr string | PBool bool

text \<open>Every raise of the source is a value of this type.\<close>

datatype error =
    AssertionError string
  | KeyError pval
  | TypeError
  | ZeroDivisionError
  | IndexError
  | ValueError
  | AttributeError
  | ShapeError
  | DuplicateError string
  | ColumnNotFoundError string
  | LearnerError string

section \<open>Tables\<close>

text \<open>
  A data frame is its row count and its named columns, in order.  The two supported
  representations (pandas, polars) carry the same data; a third constructor stands for
  any other array-like input (a two-dimensional numpy array, given by its rows).
\<close>

record 'a frame =
  nrows :: nat
  columns :: "(string \<times> 'a list) list"

datatype 'a table = Pandas "'a frame" | Polars "'a frame" | Ndarray "'a list list"

definition wf_frame :: "'a frame \<Rightarrow> bool" where
  "wf_frame f = (distinct (map fst (columns f)) \<and>
                 list_all (\<lambda>c. length (snd c) = nrows f) (columns f))"

text \<open>\<open>len(X)\<close> and \<open>X.shape[0]\<close>: the number of rows.\<close>

fun len :: "'a table \<Rightarrow> nat" where
  "len (Pandas f) = nrows f"
| "len (Polars f) = nrows f"
| "len (Ndarray rs) = length rs"

definition map_frame :: "('a \<Rightarrow> 'b) \<Rightarrow> 'a frame \<Rightarrow> 'b frame" where
  "map_frame g f = \<lparr>nrows = nrows f, columns = map (\<lambda>(n, c). (n, map g c)) (columns f)\<rparr>"

text \<open>Position of the first occurrence, Python's \<open>list.index\<close>.\<close>

fun index_of :: "'a \<Rightarrow> 'a list \<Rightarrow> nat option" where
  "index_of x [] = None"
| "index_of x (y # ys) =
     (if x = y then Some 0 else (case index_of x ys of None \<Rightarrow> None | Some i \<Rightarrow> Some (Suc i)))"

section \<open>CustomMinMaxScaler\<close>

text \<open>
  \<open>min_vals\<close> and \<open>max_vals\<close> are \<open>None\<close> until \<open>fit\<close> stores them.  Fitted on a
  pandas frame they are a pandas Series (one value per column label); fitted on a polars
  frame they are a numpy array (one value per column position).
\<close>

datatype stats = SeriesStats "(string \<times> fval) list" | ArrayStats "fval list"

record CustomMinMaxScaler =
  min_vals :: "stats option"
  max_vals :: "stats option"

definition CustomMinMaxScaler_init :: CustomMinMaxScaler where
  "CustomMinMaxScaler_init = \<lparr>min_vals = None, max_vals = None\<rparr>"

text \<open>Column minimum and maximum; of a column with no rows both libraries give NaN.\<close>

fun col_min :: "rat list \<Rightarrow> fval" where
  "col_min [] = NaN"
| "col_min (x # xs) = Num (fold min xs x)"

fun col_max :: "rat list \<Rightarrow> fval" where
  "col_max [] = NaN"
| "col_max (x # xs) = Num (fold max xs x)"

fun CustomMinMaxScaler_fit :: "CustomMinMaxScaler \<Rightarrow> rat table \<Rightarrow> CustomMinMaxScaler" where
  "CustomMinMaxScaler_fit self (Pandas X) =
     self\<lparr>min_vals := Some (SeriesStats (map (\<lambda>(n, c). (n, col_min c)) (columns X))),
          max_vals := Some (SeriesStats (map (\<lambda>(n, c). (n, col_max c)) (columns X)))\<rparr>"
| "CustomMinMaxScaler_fit self (Polars X) =
     self\<lparr>min_vals := Some (ArrayStats (map (\<lambda>(n, c). col_min c) (columns X))),
          max_vals := Some (ArrayStats (map (\<lambda>(n, c). col_max c) (columns X)))\<rparr>"
| "CustomMinMaxScaler_fit self (Ndarray X) = self"

subsection \<open>The pandas branch: label-aligned frame arithmetic\<close>

text \<open>
  \<open>Series op Series\<close> and \<open>DataFrame op Series\<close> align on labels.  With equal label
  sequences the operation is positional.  Otherwise the result carries the sorted union
  of the labels, with NaN wherever a label is missing on one side.  A numpy array
  operand is broadcast by position and must have one entry per column.
\<close>

definition union_labels :: "string list \<Rightarrow> string list \<Rightarrow> string list" where
  "union_labels a b = (if a = b then a else sort (remdups (a @ b)))"

definition series_op ::
  "(fval \<Rightarrow> fval \<Rightarrow> fval) \<Rightarrow> (string \<times> fval) list \<Rightarrow> (string \<times> fval) list \<Rightarrow> (string \<times> fval) list" where
  "series_op f a b =
     map (\<lambda>l. (l, (case (map_of a l, map_of b l) of
                      (Some x, Some y) \<Rightarrow> f x y
                    | _ \<Rightarrow> NaN)))
         (union_labels (map fst a) (map fst b))"

fun stats_op :: "(fval \<Rightarrow> fval \<Rightarrow> fval) \<Rightarrow> stats \<Rightarrow> stats \<Rightarrow> error + stats" where
  "stats_op f (SeriesStats a) (SeriesStats b) = Inr (SeriesStats (series_op f a b))"
| "stats_op f (ArrayStats a) (ArrayStats b) =
     (if length a = length b then Inr (ArrayStats (map2 f a b)) else Inl ValueError)"
| "stats_op f (SeriesStats a) (ArrayStats b) =
     (if length a = length b then Inr (SeriesStats (map2 (\<lambda>(l, x) y. (l, f x y)) a b))
      else Inl ValueError)"
| "stats_op f (ArrayStats a) (SeriesStats b) =
     (if length a = length b then Inr (SeriesStats (map2 (\<lambda>x (l, y). (l, f x y)) a b))
      else Inl ValueError)"

fun frame_op :: "(fval \<Rightarrow> fval \<Rightarrow> fval) \<Rightarrow> fval frame \<Rightarrow> stats \<Rightarrow> error + fval frame" where
  "frame_op f X (SeriesStats s) =
     Inr \<lparr>nrows = nrows X,
          columns = map (\<lambda>l. (l, (case (map_of (columns X) l, map_of s l) of
                                     (Some c, Some v) \<Rightarrow> map (\<lambda>x. f x v) c
                                   | _ \<Rightarrow> replicate (nrows X) NaN)))
                        (union_labels (map fst (columns X)) (map fst s))\<rparr>"
| "frame_op f X (ArrayStats a) =
     (if length a = length (columns X)
      then Inr \<lparr>nrows = nrows X, columns = map2 (\<lambda>(l, c) v. (l, map (\<lambda>x. f x v) c)) (columns X) a\<rparr>
      else Inl ValueError)"

subsection \<open>The polars branch: the loop over the columns\<close>

text \<open>\<open>self.min_vals[j]\<close> with an integer \<open>j\<close>: by position.\<close>

fun stat_at :: "stats \<Rightarrow> nat \<Rightarrow> error + fval" where
  "stat_at (ArrayStats a) j = (if j < length a then Inr (a ! j) else Inl IndexError)"
| "stat_at (SeriesStats s) j = (if j < length s then Inr (snd (s ! j)) else Inl IndexError)"

text \<open>\<open>X.with_columns(col.alias(name))\<close>: replaces the column of that name in place.\<close>

definition with_columns :: "'a frame \<Rightarrow> string \<Rightarrow> 'a list \<Rightarrow> 'a frame" where
  "with_columns X name col =
     (if name \<in> set (map fst (columns X))
      then X\<lparr>columns := map (\<lambda>(n, c). if n = name then (n, col) else (n, c)) (columns X)\<rparr>
      else X\<lparr>columns := columns X @ [(name, col)]\<rparr>)"

fun polars_loop :: "stats \<Rightarrow> stats \<Rightarrow> string list \<Rightarrow> fval frame \<Rightarrow> error + fval frame" where
  "polars_loop mn mx [] X = Inr X"
| "polars_loop mn mx (column # rest) X =
     (case index_of column (map fst (columns X)) of
        None \<Rightarrow> Inl ValueError
      | Some j \<Rightarrow>
         (case stat_at mn j of
            Inl e \<Rightarrow> Inl e
          | Inr min_val \<Rightarrow>
             (case stat_at mx j of
                Inl e \<Rightarrow> Inl e
              | Inr max_val \<Rightarrow>
                 (let range_val = fsub max_val min_val;
                      Xcol = (case map_of (columns X) column of Some c \<Rightarrow> c | None \<Rightarrow> []);
                      scaled_column =
                        (if range_val = Num 0
                         then map (\<lambda>x. fsub x min_val) Xcol
                         else map (\<lambda>x. fdiv (fsub x min_val) range_val) Xcol)
                  in polars_loop mn mx rest (with_columns X column scaled_column)))))"

text \<open>
  \<open>transform\<close>: the assertion first; then one branch per representation; for any other
  input the function falls off its end and returns Python's \<open>None\<close> (here \<open>Inr None\<close>).
\<close>

definition unfit_message :: string where
  "unfit_message = ''fit() must be called before transform()''"

fun CustomMinMaxScaler_transform ::
  "CustomMinMaxScaler \<Rightarrow> rat table \<Rightarrow> error + fval table option" where
  "CustomMinMaxScaler_transform self X =
     (case (min_vals self, max_vals self) of
        (Some mn, Some mx) \<Rightarrow>
          (case X of
             Pandas F \<Rightarrow>
               (case frame_op fsub (map_frame Num F) mn of
                  Inl e \<Rightarrow> Inl e
                | Inr num \<Rightarrow>
                   (case stats_op fsub mx mn of
                      Inl e \<Rightarrow> Inl e
                    | Inr den \<Rightarrow>
                       (case frame_op fdiv num den of
                          Inl e \<Rightarrow> Inl e
                        | Inr R \<Rightarrow> Inr (Some (Pandas R)))))
           | Polars F \<Rightarrow>
               (case polars_loop mn mx (map fst (columns F)) (map_frame Num F) of
                  Inl e \<Rightarrow> Inl e
                | Inr R \<Rightarrow> Inr (Some (Polars R)))
           | Ndarray A \<Rightarrow> Inr None)
      | _ \<Rightarrow> Inl (AssertionError unfit_message))"

text \<open>\<open>TransformerMixin.fit_transform\<close> of scikit-learn: \<open>self.fit(X).transform(X)\<close>.\<close>

definition CustomMinMaxScaler_fit_transform ::
  "CustomMinMaxScaler \<Rightarrow> rat table \<Rightarrow> (error + fval table option) \<times> CustomMinMaxScaler" where
  "CustomMinMaxScaler_fit_transform self X =
     (let self' = CustomMinMaxScaler_fit self X
      in (CustomMinMaxScaler_transform self' X, self'))"

section \<open>Row partitions\<close>

text \<open>The Python slice \<open>xs[start:end]\<close> for non-negative bounds.\<close>

definition slice :: "nat \<Rightarrow> nat \<Rightarrow> 'a list \<Rightarrow> 'a list" where
  "slice start end xs = take (end - start) (drop start xs)"

text \<open>
  \<open>subset_data(data, start, end, axis)\<close> on a table: \<open>iloc[start:end]\<close> (rows) or
  \<open>iloc[:, start:end]\<close> (columns) for pandas, \<open>slice(start, end - start)\<close> (always rows)
  for polars, \<open>data[start:end]\<close> or \<open>data[:, start:end]\<close> for anything else.  Its callers
  pass only bounds with \<open>0 \<le> start\<close> and \<open>0 \<le> end\<close>, hence the natural numbers.
\<close>

fun subset_data :: "'a table \<Rightarrow> nat \<Rightarrow> nat \<Rightarrow> int \<Rightarrow> 'a table" where
  "subset_data (Pandas F) start end axis =
     (if axis = 0
      then Pandas \<lparr>nrows = length (slice start end [0..<nrows F]),
                   columns = map (\<lambda>(n, c). (n, slice start end c)) (columns F)\<rparr>
      else Pandas \<lparr>nrows = nrows F, columns = slice start end (columns F)\<rparr>)"
| "subset_data (Polars F) start end axis =
     Polars \<lparr>nrows = length (slice start end [0..<nrows F]),
             columns = map (\<lambda>(n, c). (n, slice start end c)) (columns F)\<rparr>"
| "subset_data (Ndarray A) start end axis =
     (if axis = 0 then Ndarray (slice start end A) else Ndarray (map (slice start end) A))"

text \<open>
  The label vector \<open>y\<close> is a pandas Series or a one-dimensional numpy array; on either,
  \<open>subset_data\<close> with the default axis is the slice \<open>y[start:end]\<close>.
\<close>

definition subset_data_1d :: "'b list \<Rightarrow> nat \<Rightarrow> nat \<Rightarrow> 'b list" where
  "subset_data_1d data start end = slice start end data"

section \<open>PartitionedEnsembleRows\<close>

text \<open>
  The base estimator is a library object.  It enters as two functions: \<open>base_fit\<close>, the
  clone of the prototype with the keyword parameters set and then fitted on a block
  (\<open>clone\<close>, \<open>set_params\<close>, \<open>fit\<close>), and \<open>base_predict\<close>, a fitted member's \<open>predict\<close>.
\<close>

record ('p, 'm) PartitionedEnsembleRows =
  estimator :: 'p
  n_partitions :: int
  verbose :: int
  kwargs :: "string \<rightharpoonup> pval"
  models :: "'m list"

definition PartitionedEnsembleRows_init ::
  "'p \<Rightarrow> int \<Rightarrow> int \<Rightarrow> (string \<rightharpoonup> pval) \<Rightarrow> ('p, 'm) PartitionedEnsembleRows" where
  "PartitionedEnsembleRows_init est n v kw =
     \<lparr>estimator = est, n_partitions = n, verbose = v, kwargs = kw, models = []\<rparr>"

text \<open>\<open>range(n)\<close>.\<close>

definition range_int :: "int \<Rightarrow> int list" where
  "range_int n = [0..n - 1]"

text \<open>The body of the \<open>for\<close> loop of \<open>fit\<close>, for the indices still to come.\<close>

fun fit_loop ::
  "('p \<Rightarrow> (string \<rightharpoonup> pval) \<Rightarrow> 'a table \<Rightarrow> 'b list \<Rightarrow> error + 'm) \<Rightarrow>
   'a table \<Rightarrow> 'b list \<Rightarrow> int \<Rightarrow> int list \<Rightarrow>
   ('p, 'm) PartitionedEnsembleRows \<Rightarrow> error + ('p, 'm) PartitionedEnsembleRows" where
  "fit_loop base_fit X y partition_size [] self = Inr self"
| "fit_loop base_fit X y partition_size (i # rest) self =
     (let start_idx = i * partition_size;
          end_idx = (if i \<noteq> n_partitions self - 1 then (i + 1) * partition_size
                     else int (length y));
          X_subset = subset_data X (nat start_idx) (nat end_idx) 0;
          y_subset = subset_data_1d y (nat start_idx) (nat end_idx)
      in case base_fit (estimator self) (kwargs self) X_subset y_subset of
           Inl e \<Rightarrow> Inl e
         | Inr model \<Rightarrow>
             fit_loop base_fit X y partition_size rest (self\<lparr>models := models self @ [model]\<rparr>))"

text \<open>
  \<open>fit\<close>.  \<open>shuffle\<close> is the random source (\<open>np.random.shuffle\<close>, which permutes
  \<open>indices\<close> in place).  Integer division by \<open>n_partitions = 0\<close> raises.
\<close>

definition PartitionedEnsembleRows_fit ::
  "(nat list \<Rightarrow> nat list) \<Rightarrow>
   ('p \<Rightarrow> (string \<rightharpoonup> pval) \<Rightarrow> 'a table \<Rightarrow> 'b list \<Rightarrow> error + 'm) \<Rightarrow>
   ('p, 'm) PartitionedEnsembleRows \<Rightarrow> 'a table \<Rightarrow> 'b list \<Rightarrow>
   error + ('p, 'm) PartitionedEnsembleRows" where
  "PartitionedEnsembleRows_fit shuffle base_fit self X y =
     (let indices = shuffle [0..<length y]
      in if n_partitions self = 0 then Inl ZeroDivisionError
         else (let partition_size = int (length y) div n_partitions self
               in fit_loop base_fit X y partition_size (range_int (n_partitions self)) self))"

text \<open>
  \<open>predictions += p\<close> on a one-dimensional array: elementwise for equal lengths, a
  one-element array is broadcast, any other shape raises.
\<close>

definition iadd :: "fval list \<Rightarrow> fval list \<Rightarrow> error + fval list" where
  "iadd acc p =
     (if length p = length acc then Inr (map2 fadd acc p)
      else if length p = 1 then Inr (map (\<lambda>a. fadd a (hd p)) acc)
      else Inl ValueError)"

fun predict_loop ::
  "('m \<Rightarrow> 'a table \<Rightarrow> error + fval list) \<Rightarrow> 'a table \<Rightarrow> 'm list \<Rightarrow> fval list \<Rightarrow>
   error + fval list" where
  "predict_loop base_predict X [] predictions = Inr predictions"
| "predict_loop base_predict X (model # rest) predictions =
     (case base_predict model X of
        Inl e \<Rightarrow> Inl e
      | Inr p \<Rightarrow>
         (case iadd predictions p of
            Inl e \<Rightarrow> Inl e
          | Inr predictions' \<Rightarrow> predict_loop base_predict X rest predictions'))"

text \<open>\<open>predict\<close> assigns no attribute of \<open>self\<close>: it returns the predictions only.\<close>

definition PartitionedEnsembleRows_predict ::
  "('m \<Rightarrow> 'a table \<Rightarrow> error + fval list) \<Rightarrow> ('p, 'm) PartitionedEnsembleRows \<Rightarrow> 'a table \<Rightarrow>
   error + fval list" where
  "PartitionedEnsembleRows_predict base_predict self X =
     (case predict_loop base_predict X (models self) (replicate (len X) (Num 0)) of
        Inl e \<Rightarrow> Inl e
      | Inr predictions \<Rightarrow>
          Inr (map (\<lambda>v. fdiv v (Num (of_int (n_partitions self)))) predictions))"

section \<open>Column selection and row masks\<close>

text \<open>
  \<open>X[names]\<close> with a list of column names.  pandas raises \<open>KeyError\<close> for a name that is
  not a column; for each name in turn it returns every column that carries the name (one
  column when the labels of the frame are distinct), so a name given twice is returned
  twice.  polars raises for a missing and for a repeated name, and a polars frame without
  columns has no rows.  A numpy array cannot be indexed by names.
\<close>

definition get_column :: "'a frame \<Rightarrow> string \<Rightarrow> 'a list" where
  "get_column F n = (case map_of (columns F) n of Some c \<Rightarrow> c | None \<Rightarrow> [])"

fun select_columns :: "'a table \<Rightarrow> string list \<Rightarrow> error + 'a table" where
  "select_columns (Pandas F) names =
     (case filter (\<lambda>n. n \<notin> set (map fst (columns F))) names of
        m # _ \<Rightarrow> Inl (KeyError (PStr m))
      | [] \<Rightarrow> Inr (Pandas \<lparr>nrows = nrows F,
                          columns = concat (map (\<lambda>n. filter (\<lambda>c. fst c = n) (columns F)) names)\<rparr>))"
| "select_columns (Polars F) names =
     (case filter (\<lambda>n. n \<notin> set (map fst (columns F))) names of
        m # _ \<Rightarrow> Inl (ColumnNotFoundError m)
      | [] \<Rightarrow>
         (case filter (\<lambda>n. 1 < count_list names n) names of
            d # _ \<Rightarrow> Inl (DuplicateError d)
          | [] \<Rightarrow> Inr (Polars \<lparr>nrows = (if names = [] then 0 else nrows F),
                               columns = map (\<lambda>n. (n, get_column F n)) names\<rparr>)))"
| "select_columns (Ndarray A) names = (if names = [] then Inr (Ndarray []) else Inl IndexError)"

text \<open>Selection by a boolean mask: the entries whose mask bit is set, in order.\<close>

definition mask_select :: "bool list \<Rightarrow> 'a list \<Rightarrow> 'a list" where
  "mask_select bmask xs = map snd (filter fst (zip bmask xs))"

text \<open>
  \<open>X.filter(mask)\<close> (polars) and \<open>X[mask]\<close> (pandas, numpy): the rows whose mask bit is
  set.  A mask of the wrong length raises.
\<close>

fun mask_rows :: "'a table \<Rightarrow> bool list \<Rightarrow> error + 'a table" where
  "mask_rows (Pandas F) bmask =
     (if length bmask \<noteq> nrows F then Inl ValueError
      else Inr (Pandas \<lparr>nrows = length (filter id bmask),
                        columns = map (\<lambda>(n, c). (n, mask_select bmask c)) (columns F)\<rparr>))"
| "mask_rows (Polars F) bmask =
     (if length bmask \<noteq> nrows F then Inl ShapeError
      else Inr (Polars \<lparr>nrows = length (filter id bmask),
                        columns = map (\<lambda>(n, c). (n, mask_select bmask c)) (columns F)\<rparr>))"
| "mask_rows (Ndarray A) bmask =
     (if length bmask \<noteq> length A then Inl IndexError else Inr (Ndarray (mask_select bmask A)))"

text \<open>\<open>y[mask]\<close> on the label vector.\<close>

definition mask_labels :: "'b list \<Rightarrow> bool list \<Rightarrow> error + 'b list" where
  "mask_labels y bmask = (if length bmask \<noteq> length y then Inl IndexError else Inr (mask_select bmask y))"

section \<open>LGBMEstimatorPRS\<close>

datatype task = Classification | Regression | Rank

datatype estimator_class = LGBMClassifier | LGBMRegressor

datatype callback = EarlyStopping pval | UserCallback string

text \<open>Values of the keyword arguments of \<open>_fit\<close>.\<close>

datatype kwval = KwVal pval | KwInts "int list" | KwCallbacks "callback list"

record 'm LGBMEstimatorPRS =
  task :: task
  estimator_class :: estimator_class
  params :: "string \<rightharpoonup> pval"
  model :: "'m option"

record 'm LGBMEstimatorMultiThreshPRS = "'m LGBMEstimatorPRS" +
  var_sets_map :: "(pval \<rightharpoonup> string list) option"
  covar_cols :: "string list option"

text \<open>What \<open>_fit\<close> hands to the library: the constructor call and the call of \<open>model.fit\<close>.\<close>

record 'a fit_call =
  call_class :: estimator_class
  call_params :: "string \<rightharpoonup> pval"
  call_X_train :: "'a table"
  call_y_train :: "rat list"
  call_X_val :: "'a table"
  call_y_val :: "rat list"
  call_kwargs :: "string \<rightharpoonup> kwval"

text \<open>
  The \<open>groups\<close> keyword: popped from a copy of the keyword arguments; for the ranking task
  its group counts (\<open>group_counts\<close> of FLAML, a parameter here) are stored under \<open>group\<close>.
\<close>

definition pop_groups :: "(kwval \<Rightarrow> kwval) \<Rightarrow> task \<Rightarrow> (string \<rightharpoonup> kwval) \<Rightarrow> (string \<rightharpoonup> kwval)" where
  "pop_groups group_counts t kws =
     (case kws ''groups'' of
        None \<Rightarrow> kws
      | Some groups \<Rightarrow>
         (let kws' = kws(''groups'' := None)
          in if t = Rank then kws'(''group'' \<mapsto> group_counts groups) else kws'))"

text \<open>
  \<open>np.random.choice([True, False], n_samples, p=[val_frac, train_frac])\<close>: the random
  source \<open>rnd\<close> gives the draw for each row; probabilities outside \<open>[0, 1]\<close> raise.
\<close>

definition random_choice :: "(nat \<Rightarrow> bool) \<Rightarrow> nat \<Rightarrow> rat \<Rightarrow> rat \<Rightarrow> error + bool list" where
  "random_choice rnd n_samples p_true p_false =
     (if p_true < 0 \<or> p_false < 0 then Inl ValueError else Inr (map rnd [0..<n_samples]))"

text \<open>
  \<open>_fit\<close> from the creation of the validation set up to the arguments of \<open>model.fit\<close>.
  The two estimators share it; they differ in \<open>non_lgbm_params\<close>.
\<close>

definition lgbm_fit_call ::
  "(nat \<Rightarrow> bool) \<Rightarrow> string list \<Rightarrow> ('m, 'z) LGBMEstimatorPRS_scheme \<Rightarrow>
   'a table \<Rightarrow> rat list \<Rightarrow> rat \<Rightarrow> (string \<rightharpoonup> kwval) \<Rightarrow> error + 'a fit_call" where
  "lgbm_fit_call rnd non_lgbm_params self X_train y_train val_frac kws =
     (let train_frac = 1 - val_frac;
          n_samples = len X_train
      in case random_choice rnd n_samples val_frac train_frac of
           Inl e \<Rightarrow> Inl e
         | Inr val_mask \<Rightarrow>
      (case mask_rows X_train val_mask of
           Inl e \<Rightarrow> Inl e
         | Inr X_val \<Rightarrow>
      (case mask_rows X_train (map Not val_mask) of
           Inl e \<Rightarrow> Inl e
         | Inr X_train' \<Rightarrow>
      (case mask_labels y_train val_mask of
           Inl e \<Rightarrow> Inl e
         | Inr y_val \<Rightarrow>
      (case mask_labels y_train (map Not val_mask) of
           Inl e \<Rightarrow> Inl e
         | Inr y_train' \<Rightarrow>
      (let params' = (params self)(''verbose'' \<mapsto> PInt 1);
           ctor_params = (\<lambda>k. if k \<in> set non_lgbm_params then None else params' k)
       in case params' ''early_stopping_rounds'' of
            None \<Rightarrow> Inl (KeyError (PStr ''early_stopping_rounds''))
          | Some rounds \<Rightarrow>
             (let early_stopping_callback = EarlyStopping rounds
              in case (case kws ''callbacks'' of
                         None \<Rightarrow> Inr (kws(''callbacks'' \<mapsto> KwCallbacks [early_stopping_callback]))
                       | Some (KwCallbacks cs) \<Rightarrow>
                           Inr (kws(''callbacks'' \<mapsto> KwCallbacks (cs @ [early_stopping_callback])))
                       | Some _ \<Rightarrow> Inl AttributeError) of
                   Inl e \<Rightarrow> Inl e
                 | Inr kws' \<Rightarrow>
                     Inr \<lparr>call_class = estimator_class self, call_params = ctor_params,
                          call_X_train = X_train', call_y_train = y_train',
                          call_X_val = X_val, call_y_val = y_val,
                          call_kwargs = kws'\<rparr>)))))))"

text \<open>
  The rest of \<open>_fit\<close>: the library call, the elapsed time \<open>t1 - t0\<close> between the two
  readings of the clock, the fitted model stored in \<open>self\<close>.  The value returned is
  Python's: \<open>Some\<close> of a number, or \<open>None\<close>.
\<close>

definition lgbm_fit_rest ::
  "rat \<Rightarrow> rat \<Rightarrow> (nat \<Rightarrow> bool) \<Rightarrow> ('a fit_call \<Rightarrow> error + 'm) \<Rightarrow> string list \<Rightarrow>
   ('m, 'z) LGBMEstimatorPRS_scheme \<Rightarrow> 'a table \<Rightarrow> rat list \<Rightarrow> rat \<Rightarrow> (string \<rightharpoonup> kwval) \<Rightarrow>
   error + (rat option \<times> ('m, 'z) LGBMEstimatorPRS_scheme)" where
  "lgbm_fit_rest t0 t1 rnd learner_fit non_lgbm_params self X_train y_train val_frac kws =
     (case lgbm_fit_call rnd non_lgbm_params self X_train y_train val_frac kws of
        Inl e \<Rightarrow> Inl e
      | Inr call \<Rightarrow>
         (case learner_fit call of
            Inl e \<Rightarrow> Inl e
          | Inr fitted \<Rightarrow>
             (let train_time = t1 - t0
              in Inr (Some train_time,
                      self\<lparr>params := (params self)(''verbose'' \<mapsto> PInt 1), model := Some fitted\<rparr>))))"

definition LGBMEstimatorPRS_preprocess ::
  "('m, 'z) LGBMEstimatorPRS_scheme \<Rightarrow> 'a table \<Rightarrow> 'a table" where
  "LGBMEstimatorPRS_preprocess self X = X"

definition LGBMEstimatorPRS_fit ::
  "rat \<Rightarrow> rat \<Rightarrow> (nat \<Rightarrow> bool) \<Rightarrow> (kwval \<Rightarrow> kwval) \<Rightarrow> ('a fit_call \<Rightarrow> error + 'm) \<Rightarrow>
   'm LGBMEstimatorPRS \<Rightarrow> 'a table \<Rightarrow> rat list \<Rightarrow> rat \<Rightarrow> (string \<rightharpoonup> kwval) \<Rightarrow>
   error + (rat option \<times> 'm LGBMEstimatorPRS)" where
  "LGBMEstimatorPRS_fit t0 t1 rnd group_counts learner_fit self X_train y_train val_frac kws =
     (let current_time = t0;
          kws' = pop_groups group_counts (task self) kws;
          X_train' = LGBMEstimatorPRS_preprocess self X_train
      in lgbm_fit_rest current_time t1 rnd learner_fit [''early_stopping_rounds'']
           self X_train' y_train val_frac kws')"

section \<open>LGBMEstimatorMultiThreshPRS\<close>

text \<open>
  \<open>_preprocess\<close>: the variant list of the threshold \<open>self.params['filter_threshold']\<close>,
  then the columns \<open>covar_cols + var_subset\<close> of \<open>X\<close>.  Before \<open>_fit\<close> has stored them,
  \<open>var_sets_map\<close> and \<open>covar_cols\<close> are \<open>None\<close>.
\<close>

definition LGBMEstimatorMultiThreshPRS_preprocess ::
  "'m LGBMEstimatorMultiThreshPRS \<Rightarrow> 'a table \<Rightarrow> error + 'a table" where
  "LGBMEstimatorMultiThreshPRS_preprocess self X =
     (case params self ''filter_threshold'' of
        None \<Rightarrow> Inl (KeyError (PStr ''filter_threshold''))
      | Some threshold \<Rightarrow>
         (case var_sets_map self of
            None \<Rightarrow> Inl TypeError
          | Some vmap \<Rightarrow>
             (case vmap threshold of
                None \<Rightarrow> Inl (KeyError threshold)
              | Some var_subset \<Rightarrow>
                 (case covar_cols self of
                    None \<Rightarrow> Inl TypeError
                  | Some covars \<Rightarrow> select_columns X (covars @ var_subset)))))"

definition LGBMEstimatorMultiThreshPRS_fit ::
  "rat \<Rightarrow> rat \<Rightarrow> (nat \<Rightarrow> bool) \<Rightarrow> (kwval \<Rightarrow> kwval) \<Rightarrow> ('a fit_call \<Rightarrow> error + 'm) \<Rightarrow>
   'm LGBMEstimatorMultiThreshPRS \<Rightarrow> 'a table \<Rightarrow> rat list \<Rightarrow>
   (pval \<rightharpoonup> string list) \<Rightarrow> string list \<Rightarrow> rat \<Rightarrow> (string \<rightharpoonup> kwval) \<Rightarrow>
   error + (rat option \<times> 'm LGBMEstimatorMultiThreshPRS)" where
  "LGBMEstimatorMultiThreshPRS_fit t0 t1 rnd group_counts learner_fit self X_train y_train
       var_sets_map' covar_cols' val_frac kws =
     (let current_time = t0;
          kws' = pop_groups group_counts (task self) kws;
          self' = self\<lparr>var_sets_map := Some var_sets_map', covar_cols := Some covar_cols'\<rparr>
      in case LGBMEstimatorMultiThreshPRS_preprocess self' X_train of
           Inl e \<Rightarrow> Inl e
         | Inr X_train' \<Rightarrow>
             lgbm_fit_rest current_time t1 rnd learner_fit
               [''early_stopping_rounds'', ''filter_threshold'']
               self' X_train' y_train val_frac kws')"

section \<open>ElasticNetEstimatorPRS\<close>

record ElasticNetEstimatorPRS =
  scaler :: "CustomMinMaxScaler option"
  scaler_fit :: bool

record ElasticNetEstimatorMultiThreshPRS = ElasticNetEstimatorPRS +
  en_var_sets_map :: "(pval \<rightharpoonup> string list) option"
  en_covar_cols :: "string list option"
  filter_threshold :: pval

definition SCALE_BY_DEFAULT :: bool where
  "SCALE_BY_DEFAULT = True"

text \<open>The constructors, after the constructor of the FLAML base class has returned.\<close>

definition ElasticNetEstimatorPRS_init :: "task \<Rightarrow> bool \<Rightarrow> error + ElasticNetEstimatorPRS" where
  "ElasticNetEstimatorPRS_init t scale =
     (if t \<noteq> Regression then Inl ValueError
      else if scale then Inr \<lparr>scaler = Some CustomMinMaxScaler_init, scaler_fit = False\<rparr>
      else Inr \<lparr>scaler = None, scaler_fit = True\<rparr>)"

text \<open>
  The threshold variant calls the base constructor with the task only, so the base class
  scales by default whatever \<open>scale\<close> the caller gave.
\<close>

definition ElasticNetEstimatorMultiThreshPRS_init ::
  "pval \<Rightarrow> task \<Rightarrow> bool \<Rightarrow> error + ElasticNetEstimatorMultiThreshPRS" where
  "ElasticNetEstimatorMultiThreshPRS_init threshold t scale =
     (case ElasticNetEstimatorPRS_init t SCALE_BY_DEFAULT of
        Inl e \<Rightarrow> Inl e
      | Inr base \<Rightarrow>
          Inr \<lparr>scaler = scaler base, scaler_fit = scaler_fit base,
               en_var_sets_map = None, en_covar_cols = None, filter_threshold = threshold\<rparr>)"

definition map_table :: "('a \<Rightarrow> 'b) \<Rightarrow> 'a table \<Rightarrow> 'b table" where
  "map_table g X =
     (case X of Pandas F \<Rightarrow> Pandas (map_frame g F)
              | Polars F \<Rightarrow> Polars (map_frame g F)
              | Ndarray A \<Rightarrow> Ndarray (map (map g) A))"

text \<open>
  \<open>_preprocess\<close>: \<open>fit_transform\<close> on the first table seen, \<open>transform\<close> afterwards,
  the table itself without a scaler.  The result is what \<open>transform\<close> returned, which
  may be \<open>None\<close>.
\<close>

definition ElasticNetEstimatorPRS_preprocess ::
  "'z ElasticNetEstimatorPRS_scheme \<Rightarrow> rat table \<Rightarrow>
   error + (fval table option \<times> 'z ElasticNetEstimatorPRS_scheme)" where
  "ElasticNetEstimatorPRS_preprocess self X =
     (case scaler self of
        None \<Rightarrow> Inr (Some (map_table Num X), self)
      | Some sc \<Rightarrow>
         (if \<not> scaler_fit self
          then (case CustomMinMaxScaler_fit_transform sc X of
                  (Inl e, sc') \<Rightarrow> Inl e
                | (Inr X', sc') \<Rightarrow> Inr (X', self\<lparr>scaler := Some sc', scaler_fit := True\<rparr>))
          else (case CustomMinMaxScaler_transform sc X of
                  Inl e \<Rightarrow> Inl e
                | Inr X' \<Rightarrow> Inr (X', self))))"

text \<open>
  \<open>_fit\<close> calls the \<open>_fit\<close> of the FLAML base class, a parameter here: it returns the
  training time and the estimator holding the fitted model.  The call is a statement, not
  the operand of a \<open>return\<close>: the function ends without one and its value is \<open>None\<close>.
\<close>

definition ElasticNetEstimatorPRS_fit ::
  "('s \<Rightarrow> 'x \<Rightarrow> 'y \<Rightarrow> 'k \<Rightarrow> error + (rat \<times> 's)) \<Rightarrow> 's \<Rightarrow> 'x \<Rightarrow> 'y \<Rightarrow> bool \<Rightarrow> 'k \<Rightarrow>
   error + (rat option \<times> 's)" where
  "ElasticNetEstimatorPRS_fit super_fit self X_train y_train print_params kws =
     (case super_fit self X_train y_train kws of
        Inl e \<Rightarrow> Inl e
      | Inr (train_time, self') \<Rightarrow> Inr (None, self'))"

section \<open>ElasticNetEstimatorMultiThreshPRS\<close>

text \<open>\<open>_preprocess\<close>: the columns of the threshold first, then the scaling as above.\<close>

definition ElasticNetEstimatorMultiThreshPRS_preprocess ::
  "ElasticNetEstimatorMultiThreshPRS \<Rightarrow> rat table \<Rightarrow>
   error + (fval table option \<times> ElasticNetEstimatorMultiThreshPRS)" where
  "ElasticNetEstimatorMultiThreshPRS_preprocess self X =
     (case en_var_sets_map self of
        None \<Rightarrow> Inl TypeError
      | Some vmap \<Rightarrow>
         (case vmap (filter_threshold self) of
            None \<Rightarrow> Inl (KeyError (filter_threshold self))
          | Some var_subset \<Rightarrow>
             (case en_covar_cols self of
                None \<Rightarrow> Inl TypeError
              | Some covars \<Rightarrow>
                 (case select_columns X (covars @ var_subset) of
                    Inl e \<Rightarrow> Inl e
                  | Inr X' \<Rightarrow> ElasticNetEstimatorPRS_preprocess self X'))))"

definition ElasticNetEstimatorMultiThreshPRS_fit ::
  "(ElasticNetEstimatorMultiThreshPRS \<Rightarrow> 'x \<Rightarrow> 'y \<Rightarrow> 'k \<Rightarrow>
      error + (rat \<times> ElasticNetEstimatorMultiThreshPRS)) \<Rightarrow>
   ElasticNetEstimatorMultiThreshPRS \<Rightarrow> 'x \<Rightarrow> 'y \<Rightarrow>
   (pval \<rightharpoonup> string list) \<Rightarrow> string list \<Rightarrow> bool \<Rightarrow> 'k \<Rightarrow>
   error + (rat option \<times> ElasticNetEstimatorMultiThreshPRS)" where
  "ElasticNetEstimatorMultiThreshPRS_fit super_fit self X_train y_train var_sets_map' covar_cols'
       print_params kws =
     (let self' = self\<lparr>en_var_sets_map := Some var_sets_map', en_covar_cols := Some covar_cols'\<rparr>
      in case ElasticNetEstimatorPRS_fit super_fit self' X_train y_train False kws of
           Inl e \<Rightarrow> Inl e
         | Inr (r, self'') \<Rightarrow> Inr (None, self''))"

section \<open>Vocabulary of the properties\<close>

text \<open>The rows of a table at the given positions, by original row identity.\<close>

definition rows_at :: "'a table \<Rightarrow> nat list \<Rightarrow> 'a table" where
  "rows_at X idx =
     (case X of
        Pandas F \<Rightarrow> Pandas \<lparr>nrows = length idx, columns = map (\<lambda>(n, c). (n, map ((!) c) idx)) (columns F)\<rparr>
      | Polars F \<Rightarrow> Polars \<lparr>nrows = length idx, columns = map (\<lambda>(n, c). (n, map ((!) c) idx)) (columns F)\<rparr>
      | Ndarray A \<Rightarrow> Ndarray (map ((!) A) idx))"

definition wf_table :: "'a table \<Rightarrow> bool" where
  "wf_table X = (case X of Pandas F \<Rightarrow> wf_frame F | Polars F \<Rightarrow> wf_frame F | Ndarray A \<Rightarrow> True)"

text \<open>The frame of a table in one of the two data-frame representations.\<close>

fun frame_of :: "'a table \<Rightarrow> 'a frame option" where
  "frame_of (Pandas F) = Some F"
| "frame_of (Polars F) = Some F"
| "frame_of (Ndarray A) = None"


text \<open>The bounds of block \<open>i\<close> of \<open>n\<close> blocks over \<open>N\<close> rows, as \<open>fit\<close> computes them.\<close>

definition block_start :: "nat \<Rightarrow> int \<Rightarrow> int \<Rightarrow> nat" where
  "block_start N n i = nat (i * (int N div n))"

definition block_end :: "nat \<Rightarrow> int \<Rightarrow> int \<Rightarrow> nat" where
  "block_end N n i = (if i \<noteq> n - 1 then nat ((i + 1) * (int N div n)) else N)"

text \<open>
  With a library that returns the call it received as the fitted model: the value of a
  keyword in the call of \<open>model.fit\<close>.  \<open>None\<close> if \<open>_fit\<close> failed, \<open>Some None\<close> if the
  call was made without that keyword.
\<close>

definition kwarg_passed ::
  "string \<Rightarrow> error + (rat option \<times> ('a fit_call, 'z) LGBMEstimatorPRS_scheme) \<Rightarrow>
   kwval option option" where
  "kwarg_passed k r =
     (case r of
        Inl e \<Rightarrow> None
      | Inr (t, s) \<Rightarrow> (case model s of None \<Rightarrow> None | Some call \<Rightarrow> Some (call_kwargs call k)))"

section \<open>Stand-ins for the library, for concrete runs\<close>

text \<open>
  A base learner whose fitted model is the block it was trained on, and which predicts
  the sum of its training labels for every row.
\<close>

definition recording_fit ::
  "unit \<Rightarrow> (string \<rightharpoonup> pval) \<Rightarrow> rat table \<Rightarrow> rat list \<Rightarrow> error + (rat table \<times> rat list)" where
  "recording_fit p kw X y = Inr (X, y)"

definition recording_predict :: "rat table \<times> rat list \<Rightarrow> rat table \<Rightarrow> error + fval list" where
  "recording_predict m X = Inr (replicate (len X) (Num (sum_list (snd m))))"

text \<open>A gradient-boosting library whose fitted model is the call it received.\<close>

definition recording_learner :: "rat fit_call \<Rightarrow> error + rat fit_call" where
  "recording_learner call = Inr call"

text \<open>A random source that sends every third row to validation.\<close>

definition every_third :: "nat \<Rightarrow> bool" where
  "every_third i = (i mod 3 = 0)"

text \<open>Group counts of a list of group identifiers that is already grouped.\<close>

fun run_lengths :: "int list \<Rightarrow> int list" where
  "run_lengths [] = []"
| "run_lengths [x] = [1]"
| "run_lengths (x # y # ys) =
     (case run_lengths (y # ys) of
        c # cs \<Rightarrow> (if x = y then (c + 1) # cs else 1 # c # cs)
      | [] \<Rightarrow> [1])"

definition example_group_counts :: "kwval \<Rightarrow> kwval" where
  "example_group_counts g = (case g of KwInts xs \<Rightarrow> KwInts (run_lengths xs) | other \<Rightarrow> other)"

text \<open>An estimator, a table of four samples and their labels.\<close>

definition example_estimator :: "task \<Rightarrow> rat fit_call LGBMEstimatorPRS" where
  "example_estimator t =
     \<lparr>task = t, estimator_class = (if t = Classification then LGBMClassifier else LGBMRegressor),
      params = [''early_stopping_rounds'' \<mapsto> PInt 50], model = None\<rparr>"

definition example_X :: "rat table" where
  "example_X = Pandas \<lparr>nrows = 4, columns = [(''age'', [50, 61, 47, 38]), (''rs1'', [0, 1, 2, 1]),
                                            (''rs2'', [2, 2, 0, 1])]\<rparr>"

definition example_y :: "rat list" where
  "example_y = [1, 0, 1, 1]"

text \<open>
  Threshold estimators after \<open>_fit\<close> has stored the feature map and the covariates:
  two thresholds, one covariate, filtering at the stricter threshold.
\<close>

definition example_var_sets_map :: "pval \<rightharpoonup> string list" where
  "example_var_sets_map = [PStr ''p1e-8'' \<mapsto> [''rs1''], PStr ''p1e-5'' \<mapsto> [''rs1'', ''rs2'']]"

definition example_lgbm_thresh :: "rat fit_call LGBMEstimatorMultiThreshPRS" where
  "example_lgbm_thresh =
     \<lparr>task = Regression, estimator_class = LGBMRegressor,
      params = [''early_stopping_rounds'' \<mapsto> PInt 50, ''filter_threshold'' \<mapsto> PStr ''p1e-8''],
      model = None,
      var_sets_map = Some example_var_sets_map, covar_cols = Some [''age'']\<rparr>"

definition example_en_thresh :: ElasticNetEstimatorMultiThreshPRS where
  "example_en_thresh =
     \<lparr>scaler = None, scaler_fit = True,
      en_var_sets_map = Some example_var_sets_map, en_covar_cols = Some [''age''],
      filter_threshold = PStr ''p1e-8''\<rparr>"

text \<open>
  Feature maps whose list at the threshold is not usable on the table: a variant that is
  not a column, and a variant list that repeats the covariate.
\<close>

definition example_lgbm_missing :: "rat fit_call LGBMEstimatorMultiThreshPRS" where
  "example_lgbm_missing =
     example_lgbm_thresh\<lparr>var_sets_map := Some [PStr ''p1e-8'' \<mapsto> [''rs1'', ''rs9'']]\<rparr>"

definition example_lgbm_repeated :: "rat fit_call LGBMEstimatorMultiThreshPRS" where
  "example_lgbm_repeated =
     example_lgbm_thresh\<lparr>var_sets_map := Some [PStr ''p1e-8'' \<mapsto> [''rs1'', ''age'']]\<rparr>"

text \<open>The example table as a polars frame, and a pandas frame with a repeated label.\<close>

definition example_X_polars :: "rat table" where
  "example_X_polars = Polars \<lparr>nrows = 4, columns = [(''age'', [50, 61, 47, 38]), (''rs1'', [0, 1, 2, 1]),
                                                   (''rs2'', [2, 2, 0, 1])]\<rparr>"

definition example_X_repeated_label :: "rat table" where
  "example_X_repeated_label =
     Pandas \<lparr>nrows = 4, columns = [(''age'', [50, 61, 47, 38]), (''age'', [5, 6, 4, 3]),
                                   (''rs1'', [0, 1, 2, 1])]\<rparr>"

text \<open>A library that accepts no \<open>group\<close> keyword, as a regressor's \<open>fit\<close>.\<close>

definition rejecting_learner :: "rat fit_call \<Rightarrow> error + rat fit_call" where
  "rejecting_learner call = (if call_kwargs call ''group'' = None then Inr call else Inl TypeError)"

text \<open>The inherited \<open>_fit\<close> of the FLAML base class on a run that took 5/2 seconds.\<close>

definition example_super_fit ::
  "ElasticNetEstimatorPRS \<Rightarrow> rat table \<Rightarrow> rat list \<Rightarrow> (string \<rightharpoonup> kwval) \<Rightarrow>
   error + (rat \<times> ElasticNetEstimatorPRS)" where
  "example_super_fit self X y kws = Inr (5 / 2, self)"

section \<open>The scaler\<close>

text \<open>
  Claim C1.  A feature column whose observed maximum equals its observed minimum should
  transform to \<open>X - min\<close>, a column of zeros, and never to NaN, in both representations.
  The polars branch tests \<open>range_val == 0\<close> and does so; the pandas branch has no such
  test and divides zero by zero.  On the one-column table whose three values are all 7,
  fitted and then transformed, the pandas branch returns three NaN and the polars branch
  three zeros.
\<close>

theorem C1_constant_column_pandas_nan:
  "CustomMinMaxScaler_transform
     (CustomMinMaxScaler_fit CustomMinMaxScaler_init
        (Pandas \<lparr>nrows = 3, columns = [(''g'', [7, 7, 7])]\<rparr>))
     (Pandas \<lparr>nrows = 3, columns = [(''g'', [7, 7, 7])]\<rparr>)
   = Inr (Some (Pandas \<lparr>nrows = 3, columns = [(''g'', [NaN, NaN, NaN])]\<rparr>))
   \<and>
   CustomMinMaxScaler_transform
     (CustomMinMaxScaler_fit CustomMinMaxScaler_init
        (Polars \<lparr>nrows = 3, columns = [(''g'', [7, 7, 7])]\<rparr>))
     (Polars \<lparr>nrows = 3, columns = [(''g'', [7, 7, 7])]\<rparr>)
   = Inr (Some (Polars \<lparr>nrows = 3, columns = [(''g'', [Num 0, Num 0, Num 0])]\<rparr>))"
  by (simp add: CustomMinMaxScaler_init_def map_frame_def series_op_def union_labels_def
        with_columns_def fsub_def Let_def)

text \<open>
  Claim C10.  On an input that is neither a pandas nor a polars frame, \<open>fit\<close> leaves the
  scaler as it was, storing no statistics, and \<open>transform\<close> of a scaler that holds
  statistics returns \<open>None\<close>: neither a table nor an error.
\<close>

theorem C10_other_input_ignored:
  "CustomMinMaxScaler_fit self (Ndarray A) = self \<and>
   (min_vals self \<noteq> None \<and> max_vals self \<noteq> None \<longrightarrow>
      CustomMinMaxScaler_transform self (Ndarray A) = Inr None)"
  by (auto split: option.splits)

theorem C10_other_input_ignored_witness:
  "min_vals (CustomMinMaxScaler_fit CustomMinMaxScaler_init
       (Pandas \<lparr>nrows = 2, columns = [(''g'', [1, 3])]\<rparr>)) \<noteq> None \<and>
   max_vals (CustomMinMaxScaler_fit CustomMinMaxScaler_init
       (Pandas \<lparr>nrows = 2, columns = [(''g'', [1, 3])]\<rparr>)) \<noteq> None \<and>
   CustomMinMaxScaler_fit
     (CustomMinMaxScaler_fit CustomMinMaxScaler_init
        (Pandas \<lparr>nrows = 2, columns = [(''g'', [1, 3])]\<rparr>))
     (Ndarray [[1], [3]])
     = CustomMinMaxScaler_fit CustomMinMaxScaler_init
         (Pandas \<lparr>nrows = 2, columns = [(''g'', [1, 3])]\<rparr>) \<and>
   CustomMinMaxScaler_transform
     (CustomMinMaxScaler_fit CustomMinMaxScaler_init
        (Pandas \<lparr>nrows = 2, columns = [(''g'', [1, 3])]\<rparr>))
     (Ndarray [[1], [3]]) = Inr None"
  using C10_other_input_ignored
          [of "CustomMinMaxScaler_fit CustomMinMaxScaler_init
                 (Pandas \<lparr>nrows = 2, columns = [(''g'', [1, 3])]\<rparr>)" "[[1], [3]]"]
  by (simp add: CustomMinMaxScaler_init_def)

section \<open>Use before fit\<close>

text \<open>
  Claim C6, as stated: \<open>transform\<close> of the scaler and \<open>predict\<close> of the ensemble both fail
  when called before \<open>fit\<close>.  The ensemble does not: \<open>predict\<close> on a new ensemble of
  three partitions and a two-row input returns two zeros.
\<close>

theorem C6_unfit_predict_counterexample:
  "PartitionedEnsembleRows_predict recording_predict
     (PartitionedEnsembleRows_init () 3 1 Map.empty) (Ndarray [[1], [2]])
   = Inr [Num 0, Num 0]"
  by (simp add: PartitionedEnsembleRows_predict_def PartitionedEnsembleRows_init_def)

text \<open>
  Claim C6, amended.  \<open>transform\<close> of a scaler on which \<open>fit\<close> has not been called fails
  with the assertion error; \<open>predict\<close> of an ensemble on which \<open>fit\<close> has not been called
  does not fail: it returns, for each row of the input, zero divided by \<open>n_partitions\<close>.
\<close>

theorem C6_unfit_state:
  "CustomMinMaxScaler_transform CustomMinMaxScaler_init X = Inl (AssertionError unfit_message) \<and>
   PartitionedEnsembleRows_predict base_predict (PartitionedEnsembleRows_init est n v kw) X'
     = Inr (replicate (len X') (fdiv (Num 0) (Num (of_int n))))"
  by (simp add: CustomMinMaxScaler_init_def PartitionedEnsembleRows_predict_def
        PartitionedEnsembleRows_init_def)

section \<open>The value returned by fit\<close>

text \<open>
  Claim C3.  Every estimator's \<open>_fit\<close> should return the elapsed training time.  The
  \<open>_fit\<close> of the elastic-net estimator calls the inherited \<open>_fit\<close> and drops its value:
  whenever the inherited call succeeds, with whatever training time, the value returned
  is \<open>None\<close>; an error of the inherited call is passed on.
\<close>

theorem C3_elastic_net_fit_returns_None:
  "map_sum id fst (ElasticNetEstimatorPRS_fit super_fit self X_train y_train print_params kws)
   = map_sum id (\<lambda>r. None) (super_fit self X_train y_train kws)"
  by (simp add: ElasticNetEstimatorPRS_fit_def split: sum.splits prod.splits)

section \<open>The partitioned ensemble\<close>

subsection \<open>Iteration over partitions and members\<close>



lemma range_int_2: "range_int 2 = [0, 1]"
  by (simp add: range_int_def upto_rec1)

lemma length_range_int: "length (range_int n) = nat n"
  by (simp add: range_int_def)

lemma nth_range_int: "k < nat n \<Longrightarrow> range_int n ! k = int k"
  by (simp add: range_int_def)

text \<open>The permutation is computed and then never read.\<close>

lemma fit_ignores_shuffle:
  "PartitionedEnsembleRows_fit shuffle base_fit self X y
   = PartitionedEnsembleRows_fit shuffle' base_fit self X y"
  by (simp add: PartitionedEnsembleRows_fit_def)

text \<open>
  A completed run of the loop leaves every attribute but \<open>models\<close> as it was and appends
  to \<open>models\<close> one fitted clone per index, in order: the clone fitted on the rows from
  \<open>start_idx\<close> up to \<open>end_idx\<close> of \<open>X\<close> and \<open>y\<close> as they were given.
\<close>

lemma fit_loop_appends:
  "fit_loop base_fit X y ps idx self = Inr self' \<Longrightarrow>
   estimator self' = estimator self \<and> n_partitions self' = n_partitions self \<and>
   verbose self' = verbose self \<and> kwargs self' = kwargs self \<and>
   (\<exists>new. models self' = models self @ new \<and>
      list_all2 (\<lambda>i m. base_fit (estimator self) (kwargs self)
                   (subset_data X (nat (i * ps))
                      (nat (if i \<noteq> n_partitions self - 1 then (i + 1) * ps else int (length y))) 0)
                   (subset_data_1d y (nat (i * ps))
                      (nat (if i \<noteq> n_partitions self - 1 then (i + 1) * ps else int (length y))))
                 = Inr m) idx new)"
proof (induction idx arbitrary: self)
  case Nil
  then show ?case by simp
next
  case (Cons i rest)
  let ?e = "nat (if i \<noteq> n_partitions self - 1 then (i + 1) * ps else int (length y))"
  from Cons.prems obtain m where
    m: "base_fit (estimator self) (kwargs self) (subset_data X (nat (i * ps)) ?e 0)
          (subset_data_1d y (nat (i * ps)) ?e) = Inr m"
    and rest: "fit_loop base_fit X y ps rest (self\<lparr>models := models self @ [m]\<rparr>) = Inr self'"
    by (auto simp add: Let_def split: sum.splits)
  from Cons.IH [OF rest] obtain new where
    f: "estimator self' = estimator self" "n_partitions self' = n_partitions self"
       "verbose self' = verbose self" "kwargs self' = kwargs self"
    and new: "models self' = (models self @ [m]) @ new"
       "list_all2 (\<lambda>i m. base_fit (estimator self) (kwargs self)
                   (subset_data X (nat (i * ps))
                      (nat (if i \<noteq> n_partitions self - 1 then (i + 1) * ps else int (length y))) 0)
                   (subset_data_1d y (nat (i * ps))
                      (nat (if i \<noteq> n_partitions self - 1 then (i + 1) * ps else int (length y))))
                 = Inr m) rest new"
    by auto
  have "models self' = models self @ (m # new)" using new by simp
  moreover have "list_all2 (\<lambda>i m. base_fit (estimator self) (kwargs self)
                   (subset_data X (nat (i * ps))
                      (nat (if i \<noteq> n_partitions self - 1 then (i + 1) * ps else int (length y))) 0)
                   (subset_data_1d y (nat (i * ps))
                      (nat (if i \<noteq> n_partitions self - 1 then (i + 1) * ps else int (length y))))
                 = Inr m) (i # rest) (m # new)"
    using m new by simp
  ultimately show ?case using f by blast
qed

lemma fit_appends:
  assumes "PartitionedEnsembleRows_fit shuffle base_fit self X y = Inr self'"
  shows "\<exists>new. models self' = models self @ new \<and> length new = nat (n_partitions self) \<and>
           (\<forall>k<nat (n_partitions self).
              base_fit (estimator self) (kwargs self)
                (subset_data X (block_start (length y) (n_partitions self) (int k))
                               (block_end (length y) (n_partitions self) (int k)) 0)
                (subset_data_1d y (block_start (length y) (n_partitions self) (int k))
                               (block_end (length y) (n_partitions self) (int k)))
              = Inr (new ! k))"
proof -
  let ?n = "n_partitions self"
  let ?ps = "int (length y) div ?n"
  from assms have loop: "fit_loop base_fit X y ?ps (range_int ?n) self = Inr self'"
    by (simp add: PartitionedEnsembleRows_fit_def Let_def split: if_splits)
  from fit_loop_appends [OF loop] obtain new where
    new: "models self' = models self @ new"
    and all: "list_all2 (\<lambda>i m. base_fit (estimator self) (kwargs self)
                   (subset_data X (nat (i * ?ps))
                      (nat (if i \<noteq> ?n - 1 then (i + 1) * ?ps else int (length y))) 0)
                   (subset_data_1d y (nat (i * ?ps))
                      (nat (if i \<noteq> ?n - 1 then (i + 1) * ?ps else int (length y))))
                 = Inr m) (range_int ?n) new"
    by blast
  have len: "length new = nat ?n"
    using list_all2_lengthD [OF all] by (simp add: length_range_int)
  have "\<forall>k<nat ?n.
              base_fit (estimator self) (kwargs self)
                (subset_data X (block_start (length y) ?n (int k)) (block_end (length y) ?n (int k)) 0)
                (subset_data_1d y (block_start (length y) ?n (int k)) (block_end (length y) ?n (int k)))
              = Inr (new ! k)"
  proof (intro allI impI)
    fix k assume k: "k < nat ?n"
    have rk: "range_int ?n ! k = int k" using k by (rule nth_range_int)
    from list_all2_nthD [OF all, of k] k
    show "base_fit (estimator self) (kwargs self)
                (subset_data X (block_start (length y) ?n (int k)) (block_end (length y) ?n (int k)) 0)
                (subset_data_1d y (block_start (length y) ?n (int k)) (block_end (length y) ?n (int k)))
              = Inr (new ! k)"
      unfolding rk block_start_def block_end_def
      by (simp add: length_range_int split: if_splits)
  qed
  with new len show ?thesis by blast
qed

lemma first_fit_example:
  "PartitionedEnsembleRows_fit rev recording_fit (PartitionedEnsembleRows_init () 2 1 Map.empty)
     (Ndarray [[10], [11], [12], [13]]) [0, 1, 2, 3]
   = Inr \<lparr>estimator = (), n_partitions = 2, verbose = 1, kwargs = Map.empty,
          models = [(Ndarray [[10], [11]], [0, 1]), (Ndarray [[12], [13]], [2, 3])]\<rparr>"
  by (simp add: PartitionedEnsembleRows_fit_def PartitionedEnsembleRows_init_def range_int_2
        recording_fit_def subset_data_1d_def slice_def Let_def)

text \<open>
  The blocks are contiguous and lie within the rows: with \<open>n_partitions \<ge> 1\<close> every
  block but the last has \<open>floor(N / n_partitions)\<close> rows and the last one has the rest.
\<close>

lemma block_bounds:
  assumes "0 < n" and "k < nat n"
  shows "block_start N n (int k) \<le> block_end N n (int k)"
    and "block_end N n (int k) \<le> N"
    and "block_end N n (int k) - block_start N n (int k)
           = (if int k \<noteq> n - 1 then nat (int N div n) else N - nat ((n - 1) * (int N div n)))"
proof -
  define q where "q = int N div n"
  have q0: "0 \<le> q" using assms(1) by (simp add: q_def pos_imp_zdiv_nonneg_iff)
  have "n * q + int N mod n = int N" by (simp add: q_def)
  moreover have "0 \<le> int N mod n" using assms(1) by simp
  ultimately have nq: "n * q \<le> int N" by linarith
  have k1: "int k + 1 \<le> n" using assms(2) by linarith
  have kq: "(int k + 1) * q \<le> n * q" using k1 q0 by (rule mult_right_mono)
  have kk: "int k * q \<le> (int k + 1) * q" using q0 by (simp add: mult_right_mono)
  show "block_start N n (int k) \<le> block_end N n (int k)"
    using kk kq nq by (auto simp add: block_start_def block_end_def q_def [symmetric] nat_le_iff)
  show "block_end N n (int k) \<le> N"
    using kq nq by (auto simp add: block_end_def q_def [symmetric] nat_le_iff)
  show "block_end N n (int k) - block_start N n (int k)
           = (if int k \<noteq> n - 1 then nat (int N div n) else N - nat ((n - 1) * (int N div n)))"
  proof (cases "int k = n - 1")
    case True
    then have "n - 1 = int k" by simp
    then show ?thesis
      by (simp add: block_start_def block_end_def)
  next
    case False
    then show ?thesis
      using q0 by (simp add: block_start_def block_end_def q_def [symmetric]
                        nat_mult_distrib distrib_right nat_add_distrib)
  qed
qed

lemma length_block:
  assumes "0 < n" and "k < nat n"
  shows "length (subset_data_1d y (block_start (length y) n (int k)) (block_end (length y) n (int k)))
           = (if int k \<noteq> n - 1 then nat (int (length y) div n)
              else length y - nat ((n - 1) * (int (length y) div n)))"
  using block_bounds [OF assms, of "length y"]
  by (simp add: subset_data_1d_def slice_def)

subsection \<open>Training\<close>

text \<open>
  Claim C2.  \<open>fit\<close> should train each member on a block of a random permutation of the
  rows.  It shuffles \<open>indices\<close> and then slices \<open>X\<close> and \<open>y\<close> themselves: the members are
  trained on contiguous blocks of the rows in their given order, whatever the permutation.
  With five rows, two partitions and the permutation that reverses the rows, the blocks of
  the permutation would be rows 4, 3 and rows 2, 1, 0; the members are trained on rows
  0, 1 and rows 2, 3, 4.
\<close>

theorem C2_blocks_ignore_permutation:
  "PartitionedEnsembleRows_fit rev recording_fit (PartitionedEnsembleRows_init () 2 1 Map.empty)
     (Ndarray [[10], [11], [12], [13], [14]]) [0, 1, 2, 3, 4]
   = Inr \<lparr>estimator = (), n_partitions = 2, verbose = 1, kwargs = Map.empty,
          models = [(Ndarray [[10], [11]], [0, 1]), (Ndarray [[12], [13], [14]], [2, 3, 4])]\<rparr>"
  by (simp add: PartitionedEnsembleRows_fit_def PartitionedEnsembleRows_init_def range_int_2
        recording_fit_def subset_data_1d_def slice_def Let_def)

text \<open>
  Claim C5, as stated: the model list is empty at the start of each training run, and after
  any completed \<open>fit\<close> it holds exactly \<open>n_partitions\<close> models trained in that fit.  The
  list is emptied by the constructor only: a second \<open>fit\<close> of an ensemble of two
  partitions leaves four models, the first two from the first run.
\<close>

theorem C5_refit_counterexample:
  "PartitionedEnsembleRows_fit rev recording_fit (PartitionedEnsembleRows_init () 2 1 Map.empty)
     (Ndarray [[10], [11], [12], [13]]) [0, 1, 2, 3]
   = Inr \<lparr>estimator = (), n_partitions = 2, verbose = 1, kwargs = Map.empty,
          models = [(Ndarray [[10], [11]], [0, 1]), (Ndarray [[12], [13]], [2, 3])]\<rparr>
   \<and>
   PartitionedEnsembleRows_fit rev recording_fit
     \<lparr>estimator = (), n_partitions = 2, verbose = 1, kwargs = Map.empty,
      models = [(Ndarray [[10], [11]], [0, 1]), (Ndarray [[12], [13]], [2, 3])]\<rparr>
     (Ndarray [[20], [21], [22], [23]]) [4, 5, 6, 7]
   = Inr \<lparr>estimator = (), n_partitions = 2, verbose = 1, kwargs = Map.empty,
          models = [(Ndarray [[10], [11]], [0, 1]), (Ndarray [[12], [13]], [2, 3]),
                    (Ndarray [[20], [21]], [4, 5]), (Ndarray [[22], [23]], [6, 7])]\<rparr>"
  by (simp add: PartitionedEnsembleRows_fit_def PartitionedEnsembleRows_init_def range_int_2
        recording_fit_def subset_data_1d_def slice_def Let_def)

text \<open>
  Claim C5, amended.  The model list is empty when the ensemble is constructed.  A
  completed \<open>fit\<close> keeps the models it found and appends exactly one fitted clone per
  partition, in partition order, each fitted on its block.  So after a completed \<open>fit\<close> of
  a newly constructed ensemble the list holds exactly \<open>n_partitions\<close> models (none for a
  negative \<open>n_partitions\<close>), all trained in that fit.  \<open>predict\<close> returns predictions and
  no ensemble: it cannot change the list.
\<close>

theorem C5_model_list_lifecycle:
  "models (PartitionedEnsembleRows_init est n v kw) = [] \<and>
   (PartitionedEnsembleRows_fit shuffle base_fit self X y = Inr self' \<longrightarrow>
      (\<exists>new. models self' = models self @ new \<and> length new = nat (n_partitions self) \<and>
         (\<forall>k<nat (n_partitions self).
              base_fit (estimator self) (kwargs self)
                (subset_data X (block_start (length y) (n_partitions self) (int k))
                               (block_end (length y) (n_partitions self) (int k)) 0)
                (subset_data_1d y (block_start (length y) (n_partitions self) (int k))
                               (block_end (length y) (n_partitions self) (int k)))
              = Inr (new ! k)))) \<and>
   (PartitionedEnsembleRows_fit shuffle base_fit (PartitionedEnsembleRows_init est n v kw) X y = Inr self''
      \<longrightarrow> length (models self'') = nat n)"
proof (intro conjI impI)
  show "models (PartitionedEnsembleRows_init est n v kw) = []"
    by (simp add: PartitionedEnsembleRows_init_def)
next
  assume "PartitionedEnsembleRows_fit shuffle base_fit self X y = Inr self'"
  then show "\<exists>new. models self' = models self @ new \<and> length new = nat (n_partitions self) \<and>
         (\<forall>k<nat (n_partitions self).
              base_fit (estimator self) (kwargs self)
                (subset_data X (block_start (length y) (n_partitions self) (int k))
                               (block_end (length y) (n_partitions self) (int k)) 0)
                (subset_data_1d y (block_start (length y) (n_partitions self) (int k))
                               (block_end (length y) (n_partitions self) (int k)))
              = Inr (new ! k))"
    by (rule fit_appends)
next
  assume "PartitionedEnsembleRows_fit shuffle base_fit (PartitionedEnsembleRows_init est n v kw) X y = Inr self''"
  from fit_appends [OF this] show "length (models self'') = nat n"
    by (auto simp add: PartitionedEnsembleRows_init_def)
qed

theorem C5_model_list_lifecycle_witness:
  "PartitionedEnsembleRows_fit rev recording_fit (PartitionedEnsembleRows_init () 2 1 Map.empty)
     (Ndarray [[10], [11], [12], [13]]) [0, 1, 2, 3]
   = Inr \<lparr>estimator = (), n_partitions = 2, verbose = 1, kwargs = Map.empty,
          models = [(Ndarray [[10], [11]], [0, 1]), (Ndarray [[12], [13]], [2, 3])]\<rparr>
   \<and> length (models \<lparr>estimator = (), n_partitions = 2, verbose = 1, kwargs = Map.empty,
          models = [(Ndarray [[10], [11]], [0, 1]), (Ndarray [[12], [13]], [2 :: rat, 3])]\<rparr>) = nat 2"
  using C5_model_list_lifecycle
          [of "()" 2 1 Map.empty rev recording_fit "PartitionedEnsembleRows_init () 2 1 Map.empty"
              "Ndarray [[10], [11], [12], [13]]" "[0, 1, 2, 3]"
              "\<lparr>estimator = (), n_partitions = 2, verbose = 1, kwargs = Map.empty,
                models = [(Ndarray [[10], [11]], [0, 1]), (Ndarray [[12], [13]], [2, 3])]\<rparr>"
              "\<lparr>estimator = (), n_partitions = 2, verbose = 1, kwargs = Map.empty,
                models = [(Ndarray [[10], [11]], [0, 1]), (Ndarray [[12], [13]], [2, 3])]\<rparr>"]
        first_fit_example
  by simp

subsection \<open>Prediction\<close>



section \<open>The fit protocol of the gradient-boosting estimator\<close>

subsection \<open>Row masks select by position\<close>

lemma mask_select_map:
  "mask_select (map P idx) (map f idx) = map f (filter P idx)"
  by (induction idx) (simp_all add: mask_select_def)

lemma mask_select_nth:
  "length xs = n \<Longrightarrow> mask_select (map P [0..<n]) xs = map ((!) xs) (filter P [0..<n])"
proof -
  assume "length xs = n"
  then have "map ((!) xs) [0..<n] = xs" by (auto simp add: map_nth)
  with mask_select_map [of P "[0..<n]" "(!) xs"] show ?thesis by simp
qed

lemma length_filter_id_map: "length (filter id (map P idx)) = length (filter P idx)"
  by (induction idx) simp_all

lemma mask_rows_rows_at:
  assumes "wf_table X"
  shows "mask_rows X (map P [0..<len X]) = Inr (rows_at X (filter P [0..<len X]))"
proof (cases X)
  case (Pandas F)
  with assms have "\<forall>c\<in>set (columns F). length (snd c) = nrows F"
    by (simp add: wf_table_def wf_frame_def list_all_iff)
  then have "map (\<lambda>(n, c). (n, mask_select (map P [0..<nrows F]) c)) (columns F)
           = map (\<lambda>(n, c). (n, map ((!) c) (filter P [0..<nrows F]))) (columns F)"
    by (auto simp add: mask_select_nth)
  with Pandas show ?thesis by (simp add: rows_at_def length_filter_id_map)
next
  case (Polars F)
  with assms have "\<forall>c\<in>set (columns F). length (snd c) = nrows F"
    by (simp add: wf_table_def wf_frame_def list_all_iff)
  then have "map (\<lambda>(n, c). (n, mask_select (map P [0..<nrows F]) c)) (columns F)
           = map (\<lambda>(n, c). (n, map ((!) c) (filter P [0..<nrows F]))) (columns F)"
    by (auto simp add: mask_select_nth)
  with Polars show ?thesis by (simp add: rows_at_def length_filter_id_map)
next
  case (Ndarray A)
  then show ?thesis by (simp add: rows_at_def mask_select_nth)
qed

lemma mask_labels_nth:
  "mask_labels y (map P [0..<n]) = Inr ys \<Longrightarrow> length y = n \<and> ys = map ((!) y) (filter P [0..<n])"
  by (auto simp add: mask_labels_def mask_select_nth split: if_splits)

subsection \<open>What a completed fit has done\<close>

lemma lgbm_fit_call_InrD:
  assumes "lgbm_fit_call rnd non_lgbm_params self X y val_frac kws = Inr call"
  shows "mask_rows X (map rnd [0..<len X]) = Inr (call_X_val call)"
    and "mask_rows X (map (\<lambda>i. \<not> rnd i) [0..<len X]) = Inr (call_X_train call)"
    and "mask_labels y (map rnd [0..<len X]) = Inr (call_y_val call)"
    and "mask_labels y (map (\<lambda>i. \<not> rnd i) [0..<len X]) = Inr (call_y_train call)"
    and "\<forall>k. k \<noteq> ''callbacks'' \<longrightarrow> call_kwargs call k = kws k"
    and "call_class call = estimator_class self"
  using assms
  by (auto simp add: lgbm_fit_call_def random_choice_def Let_def comp_def
           split: sum.splits option.splits if_splits kwval.splits)

lemma lgbm_fit_rest_InrD:
  assumes "lgbm_fit_rest t0 t1 rnd learner_fit non_lgbm_params self X y val_frac kws = Inr (r, self')"
  shows "\<exists>call m. lgbm_fit_call rnd non_lgbm_params self X y val_frac kws = Inr call \<and>
                  learner_fit call = Inr m \<and> model self' = Some m \<and> r = Some (t1 - t0)"
  using assms
  by (auto simp add: lgbm_fit_rest_def Let_def split: sum.splits)

text \<open>A completed \<open>_fit\<close> of the gradient-boosting estimator returns the elapsed time.\<close>

lemma lgbm_fit_returns_time:
  "LGBMEstimatorPRS_fit t0 t1 rnd group_counts learner_fit self X_train y_train val_frac kws
     = Inr (r, self') \<Longrightarrow> r = Some (t1 - t0)"
  by (auto simp add: LGBMEstimatorPRS_fit_def Let_def dest: lgbm_fit_rest_InrD)

lemma pop_groups_groups: "pop_groups group_counts t kws ''groups'' = None"
  by (simp add: pop_groups_def Let_def split: option.splits)

lemma pop_groups_group:
  "kws ''groups'' = Some g \<Longrightarrow>
   pop_groups group_counts t kws ''group'' = (if t = Rank then Some (group_counts g) else kws ''group'')"
  by (simp add: pop_groups_def Let_def)

lemma pop_groups_absent: "kws ''groups'' = None \<Longrightarrow> pop_groups group_counts t kws = kws"
  by (simp add: pop_groups_def)

lemma upt4: "[0..<4] = [0, 1, 2, 3]" by (simp add: upt_rec)

lemma example_fit_succeeds:
  "\<exists>r s. LGBMEstimatorPRS_fit 0 1 every_third example_group_counts recording_learner
         (example_estimator t) example_X example_y (1 / 10) [''groups'' \<mapsto> KwInts [0, 0, 1, 1]]
         = Inr (r, s)"
  by (simp add: LGBMEstimatorPRS_fit_def LGBMEstimatorPRS_preprocess_def
        lgbm_fit_rest_def lgbm_fit_call_def random_choice_def pop_groups_def mask_labels_def
        example_estimator_def example_X_def example_y_def recording_learner_def upt4 Let_def)

lemma wf_example_X: "wf_table example_X"
  by (simp add: wf_table_def wf_frame_def example_X_def)

subsection \<open>The groups keyword\<close>

text \<open>
  Claim C4, as stated: for a task other than ranking, \<open>groups\<close> is passed through to the
  underlying learner unmodified.  It is not passed at all: on a regression task the call
  of \<open>model.fit\<close> has neither a \<open>groups\<close> nor a \<open>group\<close> keyword.
\<close>

theorem C4_groups_dropped_counterexample:
  "kwarg_passed ''groups'' (LGBMEstimatorPRS_fit 0 1 every_third example_group_counts recording_learner
         (example_estimator Regression) example_X example_y (1 / 10) [''groups'' \<mapsto> KwInts [0, 0, 1, 1]])
   = Some None \<and>
   kwarg_passed ''group'' (LGBMEstimatorPRS_fit 0 1 every_third example_group_counts recording_learner
         (example_estimator Regression) example_X example_y (1 / 10) [''groups'' \<mapsto> KwInts [0, 0, 1, 1]])
   = Some None"
  by (simp add: kwarg_passed_def LGBMEstimatorPRS_fit_def LGBMEstimatorPRS_preprocess_def
        lgbm_fit_rest_def lgbm_fit_call_def random_choice_def pop_groups_def mask_labels_def
        example_estimator_def example_X_def example_y_def recording_learner_def upt4 Let_def)

text \<open>
  Up to the call of the library \<open>_fit\<close> does not depend on the library: either it fails
  before the call, or it makes one call and its outcome is the library's outcome on it.
\<close>

lemma lgbm_fit_rest_cases:
  "(\<exists>e. lgbm_fit_call rnd nlp self X y val_frac kws = Inl e \<and>
        (\<forall>learner_fit. lgbm_fit_rest t0 t1 rnd learner_fit nlp self X y val_frac kws = Inl e)) \<or>
   (\<exists>call. lgbm_fit_call rnd nlp self X y val_frac kws = Inr call \<and>
        (\<forall>learner_fit. lgbm_fit_rest t0 t1 rnd learner_fit nlp self X y val_frac kws =
           (case learner_fit call of
              Inl e \<Rightarrow> Inl e
            | Inr m \<Rightarrow> Inr (Some (t1 - t0),
                           self\<lparr>params := (params self)(''verbose'' \<mapsto> PInt 1), model := Some m\<rparr>))))"
  by (cases "lgbm_fit_call rnd nlp self X y val_frac kws")
     (auto simp add: lgbm_fit_rest_def Let_def split: sum.splits)

lemma popped_call_kwargs:
  assumes "kws ''groups'' = Some g"
      and "lgbm_fit_call rnd nlp self X y val_frac (pop_groups group_counts t kws) = Inr call"
  shows "call_kwargs call ''groups'' = None"
    and "call_kwargs call ''group'' = (if t = Rank then Some (group_counts g) else kws ''group'')"
proof -
  from lgbm_fit_call_InrD(5) [OF assms(2)]
  have "call_kwargs call ''groups'' = pop_groups group_counts t kws ''groups''"
       "call_kwargs call ''group'' = pop_groups group_counts t kws ''group''"
    by simp_all
  with assms(1) show "call_kwargs call ''groups'' = None"
    and "call_kwargs call ''group'' = (if t = Rank then Some (group_counts g) else kws ''group'')"
    by (simp_all add: pop_groups_groups pop_groups_group)
qed

lemma example_thresh_fit_succeeds:
  "\<exists>r s. LGBMEstimatorMultiThreshPRS_fit 0 1 every_third example_group_counts recording_learner
         (example_lgbm_thresh\<lparr>task := t\<rparr>) example_X example_y example_var_sets_map [''age'']
         (1 / 10) [''groups'' \<mapsto> KwInts [0, 0, 1, 1]]
         = Inr (r, s)"
  by (simp add: LGBMEstimatorMultiThreshPRS_fit_def LGBMEstimatorMultiThreshPRS_preprocess_def
        lgbm_fit_rest_def lgbm_fit_call_def random_choice_def pop_groups_def mask_labels_def
        example_lgbm_thresh_def example_var_sets_map_def example_X_def example_y_def
        recording_learner_def upt4 Let_def)

text \<open>
  Claim C4, amended.  When the \<open>_fit\<close> of either gradient-boosting estimator receives a
  \<open>groups\<close> keyword, it either fails before it reaches the library, or calls \<open>model.fit\<close>
  once, with keywords that hold no \<open>groups\<close>.  For the ranking task the \<open>group\<close> keyword
  of that call holds the per-group row counts of \<open>groups\<close>; for every other task \<open>groups\<close>
  is dropped and the \<open>group\<close> keyword is whatever the caller gave under that name.  The
  outcome of \<open>_fit\<close> is the outcome of the library on that call, success or failure.
\<close>

theorem C4_groups_popped:
  assumes "kws ''groups'' = Some g"
  shows
   "((\<exists>e. \<forall>learner_fit.
        LGBMEstimatorPRS_fit t_start t_end rnd group_counts learner_fit self X_train y_train val_frac kws = Inl e) \<or>
     (\<exists>call.
        lgbm_fit_call rnd [''early_stopping_rounds''] self X_train y_train val_frac
          (pop_groups group_counts (task self) kws) = Inr call \<and>
        call_kwargs call ''groups'' = None \<and>
        call_kwargs call ''group'' = (if task self = Rank then Some (group_counts g) else kws ''group'') \<and>
        (\<forall>learner_fit.
           LGBMEstimatorPRS_fit t_start t_end rnd group_counts learner_fit self X_train y_train val_frac kws =
             (case learner_fit call of
                Inl e \<Rightarrow> Inl e
              | Inr m \<Rightarrow> Inr (Some (t_end - t_start),
                             self\<lparr>params := (params self)(''verbose'' \<mapsto> PInt 1), model := Some m\<rparr>)))))
    \<and>
    ((\<exists>e. \<forall>learner_fit.
        LGBMEstimatorMultiThreshPRS_fit t_start t_end rnd group_counts learner_fit thresh X_train y_train
          vsm covars val_frac kws = Inl e) \<or>
     (\<exists>X' call.
        LGBMEstimatorMultiThreshPRS_preprocess
          (thresh\<lparr>var_sets_map := Some vsm, covar_cols := Some covars\<rparr>) X_train = Inr X' \<and>
        lgbm_fit_call rnd [''early_stopping_rounds'', ''filter_threshold'']
          (thresh\<lparr>var_sets_map := Some vsm, covar_cols := Some covars\<rparr>) X' y_train val_frac
          (pop_groups group_counts (task thresh) kws) = Inr call \<and>
        call_kwargs call ''groups'' = None \<and>
        call_kwargs call ''group'' = (if task thresh = Rank then Some (group_counts g) else kws ''group'') \<and>
        (\<forall>learner_fit.
           LGBMEstimatorMultiThreshPRS_fit t_start t_end rnd group_counts learner_fit thresh X_train y_train
             vsm covars val_frac kws =
             (case learner_fit call of
                Inl e \<Rightarrow> Inl e
              | Inr m \<Rightarrow> Inr (Some (t_end - t_start),
                             thresh\<lparr>params := (params thresh)(''verbose'' \<mapsto> PInt 1), model := Some m,
                                    var_sets_map := Some vsm, covar_cols := Some covars\<rparr>)))))"
proof (rule conjI)
  let ?kws = "pop_groups group_counts (task self) kws"
  have fit: "\<And>learner_fit.
      LGBMEstimatorPRS_fit t_start t_end rnd group_counts learner_fit self X_train y_train val_frac kws
        = lgbm_fit_rest t_start t_end rnd learner_fit [''early_stopping_rounds''] self X_train y_train val_frac ?kws"
    by (simp add: LGBMEstimatorPRS_fit_def LGBMEstimatorPRS_preprocess_def Let_def)
  from lgbm_fit_rest_cases [of rnd "[''early_stopping_rounds'']" self X_train y_train val_frac ?kws t_start t_end]
  show "(\<exists>e. \<forall>learner_fit.
        LGBMEstimatorPRS_fit t_start t_end rnd group_counts learner_fit self X_train y_train val_frac kws = Inl e) \<or>
     (\<exists>call.
        lgbm_fit_call rnd [''early_stopping_rounds''] self X_train y_train val_frac ?kws = Inr call \<and>
        call_kwargs call ''groups'' = None \<and>
        call_kwargs call ''group'' = (if task self = Rank then Some (group_counts g) else kws ''group'') \<and>
        (\<forall>learner_fit.
           LGBMEstimatorPRS_fit t_start t_end rnd group_counts learner_fit self X_train y_train val_frac kws =
             (case learner_fit call of
                Inl e \<Rightarrow> Inl e
              | Inr m \<Rightarrow> Inr (Some (t_end - t_start),
                             self\<lparr>params := (params self)(''verbose'' \<mapsto> PInt 1), model := Some m\<rparr>))))"
  proof
    assume "\<exists>e. lgbm_fit_call rnd [''early_stopping_rounds''] self X_train y_train val_frac ?kws = Inl e \<and>
        (\<forall>learner_fit. lgbm_fit_rest t_start t_end rnd learner_fit [''early_stopping_rounds''] self
            X_train y_train val_frac ?kws = Inl e)"
    then show ?thesis unfolding fit by blast
  next
    assume "\<exists>call. lgbm_fit_call rnd [''early_stopping_rounds''] self X_train y_train val_frac ?kws = Inr call \<and>
        (\<forall>learner_fit. lgbm_fit_rest t_start t_end rnd learner_fit [''early_stopping_rounds''] self
            X_train y_train val_frac ?kws =
           (case learner_fit call of
              Inl e \<Rightarrow> Inl e
            | Inr m \<Rightarrow> Inr (Some (t_end - t_start),
                           self\<lparr>params := (params self)(''verbose'' \<mapsto> PInt 1), model := Some m\<rparr>)))"
    then obtain call where
      call: "lgbm_fit_call rnd [''early_stopping_rounds''] self X_train y_train val_frac ?kws = Inr call"
      and rest: "\<forall>learner_fit. lgbm_fit_rest t_start t_end rnd learner_fit [''early_stopping_rounds''] self
            X_train y_train val_frac ?kws =
           (case learner_fit call of
              Inl e \<Rightarrow> Inl e
            | Inr m \<Rightarrow> Inr (Some (t_end - t_start),
                           self\<lparr>params := (params self)(''verbose'' \<mapsto> PInt 1), model := Some m\<rparr>))"
      by blast
    from popped_call_kwargs [OF assms call] call rest
    show ?thesis unfolding fit by blast
  qed
next
  let ?kws = "pop_groups group_counts (task thresh) kws"
  let ?self = "thresh\<lparr>var_sets_map := Some vsm, covar_cols := Some covars\<rparr>"
  let ?nlp = "[''early_stopping_rounds'', ''filter_threshold'']"
  show "(\<exists>e. \<forall>learner_fit.
        LGBMEstimatorMultiThreshPRS_fit t_start t_end rnd group_counts learner_fit thresh X_train y_train
          vsm covars val_frac kws = Inl e) \<or>
     (\<exists>X' call.
        LGBMEstimatorMultiThreshPRS_preprocess ?self X_train = Inr X' \<and>
        lgbm_fit_call rnd ?nlp ?self X' y_train val_frac ?kws = Inr call \<and>
        call_kwargs call ''groups'' = None \<and>
        call_kwargs call ''group'' = (if task thresh = Rank then Some (group_counts g) else kws ''group'') \<and>
        (\<forall>learner_fit.
           LGBMEstimatorMultiThreshPRS_fit t_start t_end rnd group_counts learner_fit thresh X_train y_train
             vsm covars val_frac kws =
             (case learner_fit call of
                Inl e \<Rightarrow> Inl e
              | Inr m \<Rightarrow> Inr (Some (t_end - t_start),
                             thresh\<lparr>params := (params thresh)(''verbose'' \<mapsto> PInt 1), model := Some m,
                                    var_sets_map := Some vsm, covar_cols := Some covars\<rparr>))))"
  proof (cases "LGBMEstimatorMultiThreshPRS_preprocess ?self X_train")
    case (Inl e)
    then have "\<forall>learner_fit.
        LGBMEstimatorMultiThreshPRS_fit t_start t_end rnd group_counts learner_fit thresh X_train y_train
          vsm covars val_frac kws = Inl e"
      by (simp add: LGBMEstimatorMultiThreshPRS_fit_def Let_def)
    then show ?thesis by blast
  next
    case (Inr X')
    then have fit: "\<And>learner_fit.
        LGBMEstimatorMultiThreshPRS_fit t_start t_end rnd group_counts learner_fit thresh X_train y_train
          vsm covars val_frac kws
        = lgbm_fit_rest t_start t_end rnd learner_fit ?nlp ?self X' y_train val_frac ?kws"
      by (simp add: LGBMEstimatorMultiThreshPRS_fit_def Let_def)
    from lgbm_fit_rest_cases [of rnd ?nlp ?self X' y_train val_frac ?kws t_start t_end]
    show ?thesis
    proof
      assume "\<exists>e. lgbm_fit_call rnd ?nlp ?self X' y_train val_frac ?kws = Inl e \<and>
        (\<forall>learner_fit. lgbm_fit_rest t_start t_end rnd learner_fit ?nlp ?self X' y_train val_frac ?kws = Inl e)"
      then show ?thesis unfolding fit by blast
    next
      assume "\<exists>call. lgbm_fit_call rnd ?nlp ?self X' y_train val_frac ?kws = Inr call \<and>
        (\<forall>learner_fit. lgbm_fit_rest t_start t_end rnd learner_fit ?nlp ?self X' y_train val_frac ?kws =
           (case learner_fit call of
              Inl e \<Rightarrow> Inl e
            | Inr m \<Rightarrow> Inr (Some (t_end - t_start),
                           ?self\<lparr>params := (params ?self)(''verbose'' \<mapsto> PInt 1), model := Some m\<rparr>)))"
      then obtain call where
        call: "lgbm_fit_call rnd ?nlp ?self X' y_train val_frac ?kws = Inr call"
        and rest: "\<forall>learner_fit. lgbm_fit_rest t_start t_end rnd learner_fit ?nlp ?self X' y_train val_frac ?kws =
           (case learner_fit call of
              Inl e \<Rightarrow> Inl e
            | Inr m \<Rightarrow> Inr (Some (t_end - t_start),
                           ?self\<lparr>params := (params ?self)(''verbose'' \<mapsto> PInt 1), model := Some m\<rparr>))"
        by blast
      have t: "task ?self = task thresh" by simp
      from popped_call_kwargs [OF assms call]
      have kw: "call_kwargs call ''groups'' = None"
        "call_kwargs call ''group'' = (if task thresh = Rank then Some (group_counts g) else kws ''group'')"
        by simp_all
      have upd: "\<And>m. ?self\<lparr>params := (params ?self)(''verbose'' \<mapsto> PInt 1), model := Some m\<rparr>
                 = thresh\<lparr>params := (params thresh)(''verbose'' \<mapsto> PInt 1), model := Some m,
                                    var_sets_map := Some vsm, covar_cols := Some covars\<rparr>"
        by simp
      from Inr call kw rest show ?thesis unfolding fit upd by blast
    qed
  qed
qed

theorem C4_groups_popped_witness:
  "[''groups'' \<mapsto> KwInts [0, 0, 1, 1]] ''groups'' = Some (KwInts [0, 0, 1, 1]) \<and>
   kwarg_passed ''groups'' (LGBMEstimatorPRS_fit 0 1 every_third example_group_counts recording_learner
         (example_estimator Rank) example_X example_y (1 / 10) [''groups'' \<mapsto> KwInts [0, 0, 1, 1]])
     = Some None \<and>
   kwarg_passed ''group'' (LGBMEstimatorPRS_fit 0 1 every_third example_group_counts recording_learner
         (example_estimator Rank) example_X example_y (1 / 10) [''groups'' \<mapsto> KwInts [0, 0, 1, 1]])
     = Some (Some (KwInts [2, 2])) \<and>
   LGBMEstimatorPRS_fit 0 1 every_third example_group_counts rejecting_learner
         (example_estimator Rank) example_X example_y (1 / 10) [''groups'' \<mapsto> KwInts [0, 0, 1, 1]]
     = Inl TypeError \<and>
   kwarg_passed ''groups'' (LGBMEstimatorMultiThreshPRS_fit 0 1 every_third example_group_counts
         recording_learner (example_lgbm_thresh\<lparr>task := Rank\<rparr>) example_X example_y
         example_var_sets_map [''age''] (1 / 10) [''groups'' \<mapsto> KwInts [0, 0, 1, 1]])
     = Some None \<and>
   kwarg_passed ''group'' (LGBMEstimatorMultiThreshPRS_fit 0 1 every_third example_group_counts
         recording_learner (example_lgbm_thresh\<lparr>task := Rank\<rparr>) example_X example_y
         example_var_sets_map [''age''] (1 / 10) [''groups'' \<mapsto> KwInts [0, 0, 1, 1]])
     = Some (Some (KwInts [2, 2])) \<and>
   LGBMEstimatorMultiThreshPRS_fit 0 1 every_third example_group_counts
         rejecting_learner (example_lgbm_thresh\<lparr>task := Rank\<rparr>) example_X example_y
         example_var_sets_map [''age''] (1 / 10) [''groups'' \<mapsto> KwInts [0, 0, 1, 1]]
     = Inl TypeError"
proof -
  let ?kws = "[''groups'' \<mapsto> KwInts [0, 0, 1, 1]]"
  let ?A = "\<lambda>learner_fit. LGBMEstimatorPRS_fit 0 1 every_third example_group_counts learner_fit
         (example_estimator Rank) example_X example_y (1 / 10) ?kws"
  let ?T = "\<lambda>learner_fit. LGBMEstimatorMultiThreshPRS_fit 0 1 every_third example_group_counts
         learner_fit (example_lgbm_thresh\<lparr>task := Rank\<rparr>) example_X example_y
         example_var_sets_map [''age''] (1 / 10) ?kws"
  have g: "?kws ''groups'' = Some (KwInts [0, 0, 1, 1])" by simp
  have counts: "example_group_counts (KwInts [0, 0, 1, 1]) = KwInts [2, 2]"
    by (simp add: example_group_counts_def)
  note inst = C4_groups_popped
    [where kws = ?kws and g = "KwInts [0, 0, 1, 1]" and t_start = 0 and t_end = 1
       and rnd = every_third and group_counts = example_group_counts
       and self = "example_estimator Rank" and X_train = example_X and y_train = example_y
       and val_frac = "1 / 10" and thresh = "example_lgbm_thresh\<lparr>task := Rank\<rparr>"
       and vsm = example_var_sets_map and covars = "[''age'']", OF g]
  from example_fit_succeeds [of Rank] have "\<not> (\<exists>e. \<forall>learner_fit. ?A learner_fit = Inl e)"
    by (metis Inl_Inr_False)
  with inst obtain call where
    a: "call_kwargs call ''groups'' = None"
       "call_kwargs call ''group'' = (if task (example_estimator Rank) = Rank
          then Some (example_group_counts (KwInts [0, 0, 1, 1])) else ?kws ''group'')"
       "\<forall>learner_fit. ?A learner_fit =
             (case learner_fit call of
                Inl e \<Rightarrow> Inl e
              | Inr m \<Rightarrow> Inr (Some (1 - 0),
                    (example_estimator Rank)\<lparr>params := (params (example_estimator Rank))(''verbose'' \<mapsto> PInt 1),
                                             model := Some m\<rparr>))"
    by blast
  have a1: "kwarg_passed ''groups'' (?A recording_learner) = Some None"
    and a2: "kwarg_passed ''group'' (?A recording_learner) = Some (Some (KwInts [2, 2]))"
    and a3: "?A rejecting_learner = Inl TypeError"
    using a
    by (simp_all add: kwarg_passed_def recording_learner_def rejecting_learner_def counts
          example_estimator_def)
  from example_thresh_fit_succeeds [of Rank] have "\<not> (\<exists>e. \<forall>learner_fit. ?T learner_fit = Inl e)"
    by (metis Inl_Inr_False)
  with inst obtain call' where
    b: "call_kwargs call' ''groups'' = None"
       "call_kwargs call' ''group'' = (if task (example_lgbm_thresh\<lparr>task := Rank\<rparr>) = Rank
          then Some (example_group_counts (KwInts [0, 0, 1, 1])) else ?kws ''group'')"
       "\<forall>learner_fit. ?T learner_fit =
             (case learner_fit call' of
                Inl e \<Rightarrow> Inl e
              | Inr m \<Rightarrow> Inr (Some (1 - 0),
                    (example_lgbm_thresh\<lparr>task := Rank\<rparr>)
                      \<lparr>params := (params (example_lgbm_thresh\<lparr>task := Rank\<rparr>))(''verbose'' \<mapsto> PInt 1),
                       model := Some m,
                       var_sets_map := Some example_var_sets_map, covar_cols := Some [''age'']\<rparr>))"
    by blast
  have b1: "kwarg_passed ''groups'' (?T recording_learner) = Some None"
    and b2: "kwarg_passed ''group'' (?T recording_learner) = Some (Some (KwInts [2, 2]))"
    and b3: "?T rejecting_learner = Inl TypeError"
    using b
    by (simp_all add: kwarg_passed_def recording_learner_def rejecting_learner_def counts)
  from g a1 a2 a3 b1 b2 b3 show ?thesis by simp
qed

subsection \<open>The validation split\<close>

text \<open>
  Claim C8.  One boolean mask over the rows splits both the feature table and the label
  vector: the rows where it is true are the validation rows, the others the training
  rows.  The two sets of row positions are disjoint, together they are all the rows, and
  the tables and label vectors handed to the learner hold, position by position, the
  rows and the labels of the same original positions.
\<close>

theorem C8_validation_split:
  assumes "LGBMEstimatorPRS_fit t0 t1 rnd group_counts learner_fit self X_train y_train val_frac kws
             = Inr (r, self')"
      and "wf_table X_train"
  shows "\<exists>call m. learner_fit call = Inr m \<and> model self' = Some m \<and>
           length y_train = len X_train \<and>
           set (filter rnd [0..<len X_train]) \<inter> set (filter (\<lambda>i. \<not> rnd i) [0..<len X_train]) = {} \<and>
           set (filter rnd [0..<len X_train]) \<union> set (filter (\<lambda>i. \<not> rnd i) [0..<len X_train])
             = {0..<len X_train} \<and>
           call_X_val call = rows_at X_train (filter rnd [0..<len X_train]) \<and>
           call_y_val call = map ((!) y_train) (filter rnd [0..<len X_train]) \<and>
           call_X_train call = rows_at X_train (filter (\<lambda>i. \<not> rnd i) [0..<len X_train]) \<and>
           call_y_train call = map ((!) y_train) (filter (\<lambda>i. \<not> rnd i) [0..<len X_train])"
proof -
  from assms(1) have "lgbm_fit_rest t0 t1 rnd learner_fit [''early_stopping_rounds''] self
           X_train y_train val_frac (pop_groups group_counts (task self) kws) = Inr (r, self')"
    by (simp add: LGBMEstimatorPRS_fit_def LGBMEstimatorPRS_preprocess_def Let_def)
  from lgbm_fit_rest_InrD [OF this] obtain call m where
    call: "lgbm_fit_call rnd [''early_stopping_rounds''] self X_train y_train val_frac
             (pop_groups group_counts (task self) kws) = Inr call"
    and m: "learner_fit call = Inr m" "model self' = Some m"
    by blast
  note d = lgbm_fit_call_InrD [OF call]
  have xv: "call_X_val call = rows_at X_train (filter rnd [0..<len X_train])"
    using d(1) mask_rows_rows_at [OF assms(2), of rnd] by simp
  have xt: "call_X_train call = rows_at X_train (filter (\<lambda>i. \<not> rnd i) [0..<len X_train])"
    using d(2) mask_rows_rows_at [OF assms(2), of "\<lambda>i. \<not> rnd i"] by simp
  have yv: "length y_train = len X_train"
           "call_y_val call = map ((!) y_train) (filter rnd [0..<len X_train])"
    using mask_labels_nth [OF d(3)] by simp_all
  have yt: "call_y_train call = map ((!) y_train) (filter (\<lambda>i. \<not> rnd i) [0..<len X_train])"
    using mask_labels_nth [OF d(4)] by simp
  have disj: "set (filter rnd [0..<len X_train]) \<inter> set (filter (\<lambda>i. \<not> rnd i) [0..<len X_train]) = {}"
    by auto
  have un: "set (filter rnd [0..<len X_train]) \<union> set (filter (\<lambda>i. \<not> rnd i) [0..<len X_train])
             = {0..<len X_train}"
    by auto
  from m xv xt yv yt disj un show ?thesis by blast
qed

theorem C8_validation_split_witness:
  "(\<exists>r s. LGBMEstimatorPRS_fit 0 1 every_third example_group_counts recording_learner
         (example_estimator Regression) example_X example_y (1 / 10) [''groups'' \<mapsto> KwInts [0, 0, 1, 1]]
         = Inr (r, s)) \<and>
   wf_table example_X \<and>
   (\<exists>r s call. LGBMEstimatorPRS_fit 0 1 every_third example_group_counts recording_learner
         (example_estimator Regression) example_X example_y (1 / 10) [''groups'' \<mapsto> KwInts [0, 0, 1, 1]]
         = Inr (r, s) \<and> model s = Some call \<and>
      call_X_val call = rows_at example_X [0, 3] \<and> call_y_val call = [1, 1] \<and>
      call_X_train call = rows_at example_X [1, 2] \<and> call_y_train call = [0, 1])"
proof -
  let ?fit = "LGBMEstimatorPRS_fit 0 1 every_third example_group_counts recording_learner
         (example_estimator Regression) example_X example_y (1 / 10) [''groups'' \<mapsto> KwInts [0, 0, 1, 1]]"
  from example_fit_succeeds [of Regression] obtain r s where fit: "?fit = Inr (r, s)" by blast
  have len: "len example_X = 4" by (simp add: example_X_def)
  have val: "filter every_third [0..<4] = [0, 3]"
    and train: "filter (\<lambda>i. \<not> every_third i) [0..<4] = [1, 2]"
    by (simp_all add: upt4 every_third_def)
  from C8_validation_split [OF fit wf_example_X] obtain call m where
    "recording_learner call = Inr m" "model s = Some m"
    "call_X_val call = rows_at example_X (filter every_third [0..<len example_X])"
    "call_y_val call = map ((!) example_y) (filter every_third [0..<len example_X])"
    "call_X_train call = rows_at example_X (filter (\<lambda>i. \<not> every_third i) [0..<len example_X])"
    "call_y_train call = map ((!) example_y) (filter (\<lambda>i. \<not> every_third i) [0..<len example_X])"
    by blast
  then have "model s = Some call \<and>
      call_X_val call = rows_at example_X [0, 3] \<and> call_y_val call = [1, 1] \<and>
      call_X_train call = rows_at example_X [1, 2] \<and> call_y_train call = [0, 1]"
    by (simp add: len val train recording_learner_def example_y_def)
  with fit wf_example_X show ?thesis by blast
qed

section \<open>Feature subsetting by threshold\<close>

lemma count_list_distinct: "distinct xs \<Longrightarrow> count_list xs x \<le> 1"
  by (induction xs) (auto simp add: count_list_0_iff)

lemma no_missing: "set names \<subseteq> fst ` set cols \<Longrightarrow> filter (\<lambda>n. n \<notin> set (map fst cols)) names = []"
  by (auto simp add: filter_empty_conv)

lemma no_duplicate: "distinct names \<Longrightarrow> filter (\<lambda>n. 1 < count_list names n) names = []"
  using count_list_distinct [of names] by (auto simp add: filter_empty_conv not_less)

lemma filter_label_absent: "n \<notin> fst ` set cols \<Longrightarrow> filter (\<lambda>c. fst c = n) cols = []"
  by (auto simp add: filter_empty_conv)

lemma filter_label:
  "distinct (map fst cols) \<Longrightarrow> map_of cols n = Some c \<Longrightarrow> filter (\<lambda>c. fst c = n) cols = [(n, c)]"
proof (induction cols)
  case Nil
  then show ?case by simp
next
  case (Cons a cols)
  show ?case
  proof (cases "fst a = n")
    case True
    with Cons.prems have "a = (n, c)" by (cases a) simp
    moreover from True Cons.prems have "n \<notin> fst ` set cols" by auto
    ultimately show ?thesis by (simp add: filter_label_absent)
  next
    case False
    with Cons show ?thesis by (cases a) auto
  qed
qed

lemma pandas_selection:
  assumes "distinct (map fst (columns F))" and "set names \<subseteq> fst ` set (columns F)"
  shows "concat (map (\<lambda>n. filter (\<lambda>c. fst c = n) (columns F)) names)
           = map (\<lambda>n. (n, get_column F n)) names"
  using assms(2)
proof (induction names)
  case Nil
  then show ?case by simp
next
  case (Cons n names)
  then have "n \<in> fst ` set (columns F)" by simp
  then obtain c where c: "map_of (columns F) n = Some c"
    by (metis domD dom_map_of_conv_image_fst)
  from filter_label [OF assms(1) c] c Cons show ?case
    by (simp add: get_column_def)
qed

lemma map_of_selected:
  "n \<in> set names \<Longrightarrow> n \<in> fst ` set (columns F) \<Longrightarrow>
   map_of (map (\<lambda>n. (n, get_column F n)) names) n = map_of (columns F) n"
proof -
  assume n: "n \<in> set names" and c: "n \<in> fst ` set (columns F)"
  from c obtain col where col: "map_of (columns F) n = Some col"
    by (metis domD dom_map_of_conv_image_fst)
  have "map_of (map (\<lambda>n. (n, get_column F n)) names) n = Some (get_column F n)"
    using n by (induction names) auto
  with col show ?thesis by (simp add: get_column_def)
qed

lemma select_columns_restricts:
  assumes "X = Pandas F \<or> X = Polars F \<and> distinct names"
      and "distinct (map fst (columns F))"
      and "set names \<subseteq> fst ` set (columns F)"
  shows "\<exists>X' R. select_columns X names = Inr X' \<and> frame_of X' = Some R \<and>
           (X = Pandas F \<longrightarrow> X' = Pandas R) \<and> (X = Polars F \<longrightarrow> X' = Polars R) \<and>
           map fst (columns R) = names \<and>
           (\<forall>n\<in>set names. map_of (columns R) n = map_of (columns F) n)"
proof -
  from assms(3) have sel: "\<forall>n\<in>set names.
      map_of (map (\<lambda>n. (n, get_column F n)) names) n = map_of (columns F) n"
    by (auto intro!: map_of_selected)
  have names: "map fst (map (\<lambda>n. (n, get_column F n)) names) = names"
    by (simp add: comp_def)
  from assms(1) show ?thesis
  proof
    assume "X = Pandas F"
    then show ?thesis
      using sel names no_missing [OF assms(3)] pandas_selection [OF assms(2) assms(3)] by simp
  next
    assume "X = Polars F \<and> distinct names"
    then show ?thesis using sel names no_missing [OF assms(3)] no_duplicate [of names] by simp
  qed
qed

text \<open>
  Claim C7, as stated: for every threshold key present in the map, \<open>_preprocess\<close> returns
  the table restricted to exactly the columns \<open>covar_cols + var_sets_map[threshold]\<close>.
  With the key present it fails when a listed variant is not a column of the table
  (\<open>KeyError\<close> on the column) and when a polars table is asked for a name twice; and on a
  pandas table in which two columns carry the covariate's label it returns both of them.
\<close>

theorem C7_unusable_list_counterexample:
  "LGBMEstimatorMultiThreshPRS_preprocess example_lgbm_missing example_X
     = Inl (KeyError (PStr ''rs9'')) \<and>
   LGBMEstimatorMultiThreshPRS_preprocess example_lgbm_repeated example_X_polars
     = Inl (DuplicateError ''age'') \<and>
   LGBMEstimatorMultiThreshPRS_preprocess example_lgbm_thresh example_X_repeated_label
     = Inr (Pandas \<lparr>nrows = 4, columns = [(''age'', [50, 61, 47, 38]), (''age'', [5, 6, 4, 3]),
                                           (''rs1'', [0, 1, 2, 1])]\<rparr>)"
  by (simp add: LGBMEstimatorMultiThreshPRS_preprocess_def example_lgbm_missing_def
        example_lgbm_repeated_def example_lgbm_thresh_def example_var_sets_map_def
        example_X_def example_X_polars_def example_X_repeated_label_def)

text \<open>
  Claim C7, amended.  For a threshold key present in the map, when the column labels of
  the table are distinct, every name of \<open>covar_cols + var_sets_map[threshold]\<close> is a column
  of the table and, for a polars table, no name is listed twice, \<open>_preprocess\<close> restricts
  the table to exactly those columns, in that order, covariates first, each column with
  the contents it has in the input; the elastic-net estimator then scales this restricted
  table.  For a threshold key absent from the map it fails with the \<open>KeyError\<close> that
  carries the key.
\<close>

theorem C7_feature_subset:
  "(params self ''filter_threshold'' = Some thr \<and> var_sets_map self = Some vmap \<and>
    vmap thr = Some var_subset \<and> covar_cols self = Some covars \<and>
    (X = Pandas F \<or> X = Polars F \<and> distinct (covars @ var_subset)) \<and>
    distinct (map fst (columns F)) \<and>
    set (covars @ var_subset) \<subseteq> fst ` set (columns F)
    \<longrightarrow> (\<exists>X' R. LGBMEstimatorMultiThreshPRS_preprocess self X = Inr X' \<and> frame_of X' = Some R \<and>
           (X = Pandas F \<longrightarrow> X' = Pandas R) \<and> (X = Polars F \<longrightarrow> X' = Polars R) \<and>
           map fst (columns R) = covars @ var_subset \<and>
           (\<forall>n\<in>set (covars @ var_subset). map_of (columns R) n = map_of (columns F) n)))
   \<and>
   (params self_b ''filter_threshold'' = Some thr_b \<and> var_sets_map self_b = Some vmap_b \<and>
    vmap_b thr_b = None
    \<longrightarrow> LGBMEstimatorMultiThreshPRS_preprocess self_b X_b = Inl (KeyError thr_b))
   \<and>
   (en_var_sets_map en = Some emap \<and> emap (filter_threshold en) = Some evars \<and>
    en_covar_cols en = Some ecovars \<and>
    (Y = Pandas G \<or> Y = Polars G \<and> distinct (ecovars @ evars)) \<and>
    distinct (map fst (columns G)) \<and>
    set (ecovars @ evars) \<subseteq> fst ` set (columns G)
    \<longrightarrow> (\<exists>Y' R. ElasticNetEstimatorMultiThreshPRS_preprocess en Y
                    = ElasticNetEstimatorPRS_preprocess en Y' \<and> frame_of Y' = Some R \<and>
           (Y = Pandas G \<longrightarrow> Y' = Pandas R) \<and> (Y = Polars G \<longrightarrow> Y' = Polars R) \<and>
           map fst (columns R) = ecovars @ evars \<and>
           (\<forall>n\<in>set (ecovars @ evars). map_of (columns R) n = map_of (columns G) n)))
   \<and>
   (en_var_sets_map en_b = Some emap_b \<and> emap_b (filter_threshold en_b) = None
    \<longrightarrow> ElasticNetEstimatorMultiThreshPRS_preprocess en_b Y_b = Inl (KeyError (filter_threshold en_b)))"
proof (intro conjI impI)
  assume h: "params self ''filter_threshold'' = Some thr \<and> var_sets_map self = Some vmap \<and>
    vmap thr = Some var_subset \<and> covar_cols self = Some covars \<and>
    (X = Pandas F \<or> X = Polars F \<and> distinct (covars @ var_subset)) \<and>
    distinct (map fst (columns F)) \<and>
    set (covars @ var_subset) \<subseteq> fst ` set (columns F)"
  then have pre: "LGBMEstimatorMultiThreshPRS_preprocess self X = select_columns X (covars @ var_subset)"
    by (simp add: LGBMEstimatorMultiThreshPRS_preprocess_def)
  from h have "X = Pandas F \<or> X = Polars F \<and> distinct (covars @ var_subset)"
    and "distinct (map fst (columns F))"
    and "set (covars @ var_subset) \<subseteq> fst ` set (columns F)" by blast+
  from select_columns_restricts [OF this] pre
  show "\<exists>X' R. LGBMEstimatorMultiThreshPRS_preprocess self X = Inr X' \<and> frame_of X' = Some R \<and>
           (X = Pandas F \<longrightarrow> X' = Pandas R) \<and> (X = Polars F \<longrightarrow> X' = Polars R) \<and>
           map fst (columns R) = covars @ var_subset \<and>
           (\<forall>n\<in>set (covars @ var_subset). map_of (columns R) n = map_of (columns F) n)"
    by simp
next
  assume "params self_b ''filter_threshold'' = Some thr_b \<and> var_sets_map self_b = Some vmap_b \<and>
    vmap_b thr_b = None"
  then show "LGBMEstimatorMultiThreshPRS_preprocess self_b X_b = Inl (KeyError thr_b)"
    by (simp add: LGBMEstimatorMultiThreshPRS_preprocess_def)
next
  assume h: "en_var_sets_map en = Some emap \<and> emap (filter_threshold en) = Some evars \<and>
    en_covar_cols en = Some ecovars \<and>
    (Y = Pandas G \<or> Y = Polars G \<and> distinct (ecovars @ evars)) \<and>
    distinct (map fst (columns G)) \<and>
    set (ecovars @ evars) \<subseteq> fst ` set (columns G)"
  then have "Y = Pandas G \<or> Y = Polars G \<and> distinct (ecovars @ evars)"
    and "distinct (map fst (columns G))"
    and "set (ecovars @ evars) \<subseteq> fst ` set (columns G)" by blast+
  from select_columns_restricts [OF this] obtain Y' R where
    sel: "select_columns Y (ecovars @ evars) = Inr Y'" and
    r: "frame_of Y' = Some R" "Y = Pandas G \<longrightarrow> Y' = Pandas R" "Y = Polars G \<longrightarrow> Y' = Polars R"
       "map fst (columns R) = ecovars @ evars"
       "\<forall>n\<in>set (ecovars @ evars). map_of (columns R) n = map_of (columns G) n"
    by blast
  from h sel have "ElasticNetEstimatorMultiThreshPRS_preprocess en Y
                    = ElasticNetEstimatorPRS_preprocess en Y'"
    by (simp add: ElasticNetEstimatorMultiThreshPRS_preprocess_def)
  with r show "\<exists>Y' R. ElasticNetEstimatorMultiThreshPRS_preprocess en Y
                    = ElasticNetEstimatorPRS_preprocess en Y' \<and> frame_of Y' = Some R \<and>
           (Y = Pandas G \<longrightarrow> Y' = Pandas R) \<and> (Y = Polars G \<longrightarrow> Y' = Polars R) \<and>
           map fst (columns R) = ecovars @ evars \<and>
           (\<forall>n\<in>set (ecovars @ evars). map_of (columns R) n = map_of (columns G) n)"
    by blast
next
  assume "en_var_sets_map en_b = Some emap_b \<and> emap_b (filter_threshold en_b) = None"
  then show "ElasticNetEstimatorMultiThreshPRS_preprocess en_b Y_b = Inl (KeyError (filter_threshold en_b))"
    by (simp add: ElasticNetEstimatorMultiThreshPRS_preprocess_def)
qed

theorem C7_feature_subset_witness:
  "(params example_lgbm_thresh ''filter_threshold'' = Some (PStr ''p1e-8'') \<and>
    var_sets_map example_lgbm_thresh = Some example_var_sets_map \<and>
    example_var_sets_map (PStr ''p1e-8'') = Some [''rs1''] \<and>
    covar_cols example_lgbm_thresh = Some [''age''] \<and>
    distinct (map fst (columns \<lparr>nrows = 4, columns = [(''age'', [50, 61, 47, 38 :: rat]),
           (''rs1'', [0, 1, 2, 1]), (''rs2'', [2, 2, 0, 1])]\<rparr>)) \<and>
    set ([''age''] @ [''rs1'']) \<subseteq> fst ` set (columns \<lparr>nrows = 4, columns = [(''age'', [50, 61, 47, 38 :: rat]),
           (''rs1'', [0, 1, 2, 1]), (''rs2'', [2, 2, 0, 1])]\<rparr>)) \<and>
   (\<exists>X' R. LGBMEstimatorMultiThreshPRS_preprocess example_lgbm_thresh example_X = Inr X' \<and>
           frame_of X' = Some R \<and> map fst (columns R) = [''age'', ''rs1'']) \<and>
   (params (example_lgbm_thresh\<lparr>params := [''filter_threshold'' \<mapsto> PStr ''p1e-3'']\<rparr>) ''filter_threshold''
      = Some (PStr ''p1e-3'') \<and>
    example_var_sets_map (PStr ''p1e-3'') = None) \<and>
   LGBMEstimatorMultiThreshPRS_preprocess
      (example_lgbm_thresh\<lparr>params := [''filter_threshold'' \<mapsto> PStr ''p1e-3'']\<rparr>) example_X
      = Inl (KeyError (PStr ''p1e-3'')) \<and>
   (en_var_sets_map example_en_thresh = Some example_var_sets_map \<and>
    example_var_sets_map (filter_threshold example_en_thresh) = Some [''rs1''] \<and>
    en_covar_cols example_en_thresh = Some [''age'']) \<and>
   (\<exists>Y' R. ElasticNetEstimatorMultiThreshPRS_preprocess example_en_thresh example_X
              = ElasticNetEstimatorPRS_preprocess example_en_thresh Y' \<and>
           frame_of Y' = Some R \<and> map fst (columns R) = [''age'', ''rs1'']) \<and>
   example_var_sets_map (filter_threshold (example_en_thresh\<lparr>filter_threshold := PStr ''p1e-3''\<rparr>)) = None \<and>
   ElasticNetEstimatorMultiThreshPRS_preprocess
      (example_en_thresh\<lparr>filter_threshold := PStr ''p1e-3''\<rparr>) example_X
      = Inl (KeyError (PStr ''p1e-3''))"
proof -
  let ?F = "\<lparr>nrows = 4, columns = [(''age'', [50, 61, 47, 38 :: rat]),
           (''rs1'', [0, 1, 2, 1]), (''rs2'', [2, 2, 0, 1])]\<rparr>"
  let ?l2 = "example_lgbm_thresh\<lparr>params := [''filter_threshold'' \<mapsto> PStr ''p1e-3'']\<rparr>"
  let ?e2 = "example_en_thresh\<lparr>filter_threshold := PStr ''p1e-3''\<rparr>"
  have X: "example_X = Pandas ?F" by (simp add: example_X_def)
  have h1: "params example_lgbm_thresh ''filter_threshold'' = Some (PStr ''p1e-8'') \<and>
    var_sets_map example_lgbm_thresh = Some example_var_sets_map \<and>
    example_var_sets_map (PStr ''p1e-8'') = Some [''rs1''] \<and>
    covar_cols example_lgbm_thresh = Some [''age''] \<and>
    (example_X = Pandas ?F \<or> example_X = Polars ?F \<and> distinct ([''age''] @ [''rs1''])) \<and>
    distinct (map fst (columns ?F)) \<and>
    set ([''age''] @ [''rs1'']) \<subseteq> fst ` set (columns ?F)"
    by (simp add: example_lgbm_thresh_def example_var_sets_map_def example_X_def)
  have h2: "params ?l2 ''filter_threshold'' = Some (PStr ''p1e-3'') \<and>
    var_sets_map ?l2 = Some example_var_sets_map \<and> example_var_sets_map (PStr ''p1e-3'') = None"
    by (simp add: example_lgbm_thresh_def example_var_sets_map_def)
  have h3: "en_var_sets_map example_en_thresh = Some example_var_sets_map \<and>
    example_var_sets_map (filter_threshold example_en_thresh) = Some [''rs1''] \<and>
    en_covar_cols example_en_thresh = Some [''age''] \<and>
    (example_X = Pandas ?F \<or> example_X = Polars ?F \<and> distinct ([''age''] @ [''rs1''])) \<and>
    distinct (map fst (columns ?F)) \<and>
    set ([''age''] @ [''rs1'']) \<subseteq> fst ` set (columns ?F)"
    by (simp add: example_en_thresh_def example_var_sets_map_def example_X_def)
  have h4: "en_var_sets_map ?e2 = Some example_var_sets_map \<and>
    example_var_sets_map (filter_threshold ?e2) = None"
    by (simp add: example_en_thresh_def example_var_sets_map_def)
  note inst = C7_feature_subset
    [where self = example_lgbm_thresh and thr = "PStr ''p1e-8''" and vmap = example_var_sets_map
       and var_subset = "[''rs1'']" and covars = "[''age'']" and X = example_X and F = ?F
       and self_b = ?l2 and thr_b = "PStr ''p1e-3''" and vmap_b = example_var_sets_map
       and X_b = example_X
       and en = example_en_thresh and emap = example_var_sets_map and evars = "[''rs1'']"
       and ecovars = "[''age'']" and Y = example_X and G = ?F
       and en_b = ?e2 and emap_b = example_var_sets_map and Y_b = example_X]
  from inst h1 have c1: "\<exists>X' R. LGBMEstimatorMultiThreshPRS_preprocess example_lgbm_thresh example_X = Inr X' \<and>
           frame_of X' = Some R \<and> map fst (columns R) = [''age'', ''rs1'']"
    by auto
  from inst h2 have c2: "LGBMEstimatorMultiThreshPRS_preprocess ?l2 example_X = Inl (KeyError (PStr ''p1e-3''))"
    by blast
  from inst h3 have c3: "\<exists>Y' R. ElasticNetEstimatorMultiThreshPRS_preprocess example_en_thresh example_X
              = ElasticNetEstimatorPRS_preprocess example_en_thresh Y' \<and>
           frame_of Y' = Some R \<and> map fst (columns R) = [''age'', ''rs1'']"
    by auto
  from inst h4 have c4: "ElasticNetEstimatorMultiThreshPRS_preprocess ?e2 example_X
      = Inl (KeyError (PStr ''p1e-3''))"
    by simp
  from h1 h2 h3 h4 c1 c2 c3 c4 show ?thesis by simp
qed

end
